theory Spec2Isabelle
  imports Complex_Main
begin

section \<open>Python values\<close>

text \<open>
  The program is a Python module (\<^verbatim>\<open>app.py\<close>) whose core works on dictionaries of
  dynamically typed values. A value is one of the Python types the core tests for with
  \<^verbatim>\<open>isinstance\<close> or produces itself.

  A string is a list of characters; a character stands for the code point of the same
  number, which covers the Latin-1 range and with it every literal of the source.
  A date is its proleptic Gregorian ordinal (what \<^verbatim>\<open>date.toordinal()\<close> returns), so that
  adding a \<^verbatim>\<open>timedelta\<close> of days is addition. A finite float is the rational number it
  denotes; rounding to binary64 is outside the model.
\<close>

datatype pyfloat = FNaN | FInf bool | FFin rat

datatype pydate = Date int

datatype pytime = Time nat nat nat nat

datatype pyval =
    PNone
  | PBool bool
  | PInt int
  | PFloat pyfloat
  | PStr string
  | PDate pydate
  | PTime pytime
  | PDateTime pydate pytime
  | PList "pyval list"
  | PDict "(string \<times> pyval) list"

datatype pyerr = AttributeError | TypeError | ValueError | OverflowError | SqliteError

type_synonym pydict = "string \<rightharpoonup> pyval"

text \<open>
  The library functions the core calls and that are not part of the repository are taken
  as parameters: \<^verbatim>\<open>repr\<close> of floats and containers, \<^verbatim>\<open>float\<close> of a string,
  \<^verbatim>\<open>pd.to_datetime(s, errors="coerce").date()\<close>, \<^verbatim>\<open>json.loads\<close> and \<^verbatim>\<open>json.dumps\<close>.
  \<open>None\<close> stands for a raised exception.
\<close>

record pylib =
  lib_repr :: "pyval \<Rightarrow> string"
  lib_float :: "string \<Rightarrow> pyfloat option"
  lib_to_date :: "string \<Rightarrow> pyval option"
  lib_json_loads :: "string \<Rightarrow> pyval option"
  lib_json_dumps :: "pyval \<Rightarrow> string option"

subsection \<open>Truth value, \<^verbatim>\<open>dict.get\<close>\<close>

fun truthy :: "pyval \<Rightarrow> bool" where
  "truthy PNone = False"
| "truthy (PBool b) = b"
| "truthy (PInt n) = (n \<noteq> 0)"
| "truthy (PFloat f) = (f \<noteq> FFin 0)"
| "truthy (PStr s) = (s \<noteq> [])"
| "truthy (PDate d) = True"
| "truthy (PTime t) = True"
| "truthy (PDateTime d t) = True"
| "truthy (PList xs) = (xs \<noteq> [])"
| "truthy (PDict kv) = (kv \<noteq> [])"

definition dict_get :: "pydict \<Rightarrow> string \<Rightarrow> pyval" where
  "dict_get d k = (case d k of None \<Rightarrow> PNone | Some v \<Rightarrow> v)"

definition dict_get_or :: "pydict \<Rightarrow> string \<Rightarrow> pyval \<Rightarrow> pyval" where
  "dict_get_or d k dflt = (case d k of None \<Rightarrow> dflt | Some v \<Rightarrow> v)"

text \<open>\<^verbatim>\<open>x.get(k)\<close> and \<^verbatim>\<open>x.get(k, dflt)\<close> on a value that need not be a dict.\<close>

fun attr_get_or :: "pyval \<Rightarrow> string \<Rightarrow> pyval \<Rightarrow> pyerr + pyval" where
  "attr_get_or (PDict kv) k dflt = Inr (dict_get_or (map_of kv) k dflt)"
| "attr_get_or _ k dflt = Inl AttributeError"

definition attr_get :: "pyval \<Rightarrow> string \<Rightarrow> pyerr + pyval" where
  "attr_get x k = attr_get_or x k PNone"

text \<open>\<^verbatim>\<open>(x or {}).get(k)\<close>\<close>

definition or_empty_get :: "pyval \<Rightarrow> string \<Rightarrow> pyerr + pyval" where
  "or_empty_get x k = (if truthy x then attr_get x k else Inr PNone)"

text \<open>\<^verbatim>\<open>d[k] = v\<close> on a dict kept as an association list: in place, or appended.\<close>

fun alist_set :: "string \<Rightarrow> pyval \<Rightarrow> (string \<times> pyval) list \<Rightarrow> (string \<times> pyval) list" where
  "alist_set k v [] = [(k, v)]"
| "alist_set k v (p # ps) = (if fst p = k then (k, v) # ps else p # alist_set k v ps)"

fun item_set :: "pyval \<Rightarrow> string \<Rightarrow> pyval \<Rightarrow> pyerr + pyval" where
  "item_set (PDict kv) k v = Inr (PDict (alist_set k v kv))"
| "item_set _ k v = Inl TypeError"

subsection \<open>Strings\<close>

definition is_space :: "char \<Rightarrow> bool" where
  "is_space c = (c \<in> set [CHR 0x09, CHR 0x0A, CHR 0x0B, CHR 0x0C, CHR 0x0D,
     CHR 0x1C, CHR 0x1D, CHR 0x1E, CHR 0x1F, CHR 0x20, CHR 0x85, CHR 0xA0])"

definition py_strip :: "string \<Rightarrow> string" where
  "py_strip s = rev (dropWhile is_space (rev (dropWhile is_space s)))"

definition uppers :: string where
  "uppers = ''ABCDEFGHIJKLMNOPQRSTUVWXYZ'' @
     [CHR 0xC0, CHR 0xC1, CHR 0xC2, CHR 0xC3, CHR 0xC4, CHR 0xC5, CHR 0xC6, CHR 0xC7,
      CHR 0xC8, CHR 0xC9, CHR 0xCA, CHR 0xCB, CHR 0xCC, CHR 0xCD, CHR 0xCE, CHR 0xCF,
      CHR 0xD0, CHR 0xD1, CHR 0xD2, CHR 0xD3, CHR 0xD4, CHR 0xD5, CHR 0xD6,
      CHR 0xD8, CHR 0xD9, CHR 0xDA, CHR 0xDB, CHR 0xDC, CHR 0xDD, CHR 0xDE]"

definition lowers :: string where
  "lowers = ''abcdefghijklmnopqrstuvwxyz'' @
     [CHR 0xE0, CHR 0xE1, CHR 0xE2, CHR 0xE3, CHR 0xE4, CHR 0xE5, CHR 0xE6, CHR 0xE7,
      CHR 0xE8, CHR 0xE9, CHR 0xEA, CHR 0xEB, CHR 0xEC, CHR 0xED, CHR 0xEE, CHR 0xEF,
      CHR 0xF0, CHR 0xF1, CHR 0xF2, CHR 0xF3, CHR 0xF4, CHR 0xF5, CHR 0xF6,
      CHR 0xF8, CHR 0xF9, CHR 0xFA, CHR 0xFB, CHR 0xFC, CHR 0xFD, CHR 0xFE]"

definition lower_char :: "char \<Rightarrow> char" where
  "lower_char c = (case map_of (zip uppers lowers) c of None \<Rightarrow> c | Some l \<Rightarrow> l)"

definition py_lower :: "string \<Rightarrow> string" where
  "py_lower s = map lower_char s"

text \<open>\<^verbatim>\<open>sub in s\<close> for strings.\<close>

fun is_prefix :: "string \<Rightarrow> string \<Rightarrow> bool" where
  "is_prefix [] s = True"
| "is_prefix (c # cs) [] = False"
| "is_prefix (c # cs) (d # ds) = (c = d \<and> is_prefix cs ds)"

fun str_contains :: "string \<Rightarrow> string \<Rightarrow> bool" where
  "str_contains sub [] = (sub = [])"
| "str_contains sub (d # ds) = (is_prefix sub (d # ds) \<or> str_contains sub ds)"

subsection \<open>\<^verbatim>\<open>str()\<close>\<close>

definition digit_char :: "nat \<Rightarrow> char" where
  "digit_char n = (''0123456789'' ! (n mod 10))"

fun str_nat :: "nat \<Rightarrow> string" where
  "str_nat n = (if n < 10 then [digit_char n] else str_nat (n div 10) @ [digit_char n])"

declare str_nat.simps [simp del]

definition str_int :: "int \<Rightarrow> string" where
  "str_int i = (if i < 0 then CHR ''-'' # str_nat (nat (- i)) else str_nat (nat i))"

text \<open>Zero-padded decimal of at least \<open>w\<close> digits (\<^verbatim>\<open>"%02d"\<close>, \<^verbatim>\<open>"%04d"\<close>, \<^verbatim>\<open>"%06d"\<close>).\<close>

definition pad :: "nat \<Rightarrow> nat \<Rightarrow> string" where
  "pad w n = replicate (w - length (str_nat n)) CHR ''0'' @ str_nat n"

text \<open>
  \<^verbatim>\<open>date.fromordinal\<close>: the year, month and day of an ordinal, as CPython's
  \<^verbatim>\<open>_ord2ymd\<close> computes them.
\<close>

definition days_before_month :: "nat list" where
  "days_before_month = [0, 0, 31, 59, 90, 120, 151, 181, 212, 243, 273, 304, 334]"

definition days_in_month :: "nat list" where
  "days_in_month = [0, 31, 28, 31, 30, 31, 30, 31, 31, 30, 31, 30, 31]"

definition ord2ymd :: "nat \<Rightarrow> nat \<times> nat \<times> nat" where
  "ord2ymd ord =
     (let n0 = ord - 1;
          n400 = n0 div 146097; n1 = n0 mod 146097;
          n100 = n1 div 36524; n2 = n1 mod 36524;
          n4 = n2 div 1461; n3 = n2 mod 1461;
          ny = n3 div 365; n = n3 mod 365;
          year = n400 * 400 + 1 + n100 * 100 + n4 * 4 + ny
      in if ny = 4 \<or> n100 = 4 then (year - 1, 12, 31)
         else
           let leapyear = (ny = 3 \<and> (n4 \<noteq> 24 \<or> n100 = 3));
               month = (n + 50) div 32;
               preceding = days_before_month ! month + (if month > 2 \<and> leapyear then 1 else 0)
           in if preceding > n
              then let month' = month - 1;
                       preceding' = preceding -
                         (days_in_month ! month' + (if month' = 2 \<and> leapyear then 1 else 0))
                   in (year, month', n - preceding' + 1)
              else (year, month, n - preceding + 1))"

definition max_ordinal :: int where
  "max_ordinal = 3652059"

definition str_date :: "pydate \<Rightarrow> string" where
  "str_date d = (case d of Date ord \<Rightarrow>
     (case ord2ymd (nat ord) of (y, m, dd) \<Rightarrow> pad 4 y @ ''-'' @ pad 2 m @ ''-'' @ pad 2 dd))"

definition str_time :: "pytime \<Rightarrow> string" where
  "str_time t = (case t of Time h m s us \<Rightarrow>
     pad 2 h @ '':'' @ pad 2 m @ '':'' @ pad 2 s @ (if us \<noteq> 0 then ''.'' @ pad 6 us else []))"

fun py_str :: "pylib \<Rightarrow> pyval \<Rightarrow> string" where
  "py_str L PNone = ''None''"
| "py_str L (PBool b) = (if b then ''True'' else ''False'')"
| "py_str L (PInt n) = str_int n"
| "py_str L (PFloat f) = lib_repr L (PFloat f)"
| "py_str L (PStr s) = s"
| "py_str L (PDate d) = str_date d"
| "py_str L (PTime t) = str_time t"
| "py_str L (PDateTime d t) = str_date d @ '' '' @ str_time t"
| "py_str L (PList xs) = lib_repr L (PList xs)"
| "py_str L (PDict kv) = lib_repr L (PDict kv)"

text \<open>\<^verbatim>\<open>date + timedelta(days=n)\<close>: \<^verbatim>\<open>OverflowError\<close> outside years 1 to 9999.\<close>

definition date_add_days :: "pydate \<Rightarrow> int \<Rightarrow> pyerr + pydate" where
  "date_add_days d n = (case d of Date ord \<Rightarrow>
     (if 0 < ord + n \<and> ord + n \<le> max_ordinal then Inr (Date (ord + n)) else Inl OverflowError))"

section \<open>Validation\<close>

subsection \<open>\<^verbatim>\<open>all_filled\<close>\<close>

definition is_blank_str :: "pyval \<Rightarrow> bool" where
  "is_blank_str v = (case v of PStr s \<Rightarrow> py_strip s = [] | _ \<Rightarrow> False)"

definition labels_get :: "(string \<times> string) list \<Rightarrow> string \<Rightarrow> string" where
  "labels_get labels k = (case map_of labels k of None \<Rightarrow> k | Some l \<Rightarrow> l)"

definition preencha :: "string \<Rightarrow> string" where
  "preencha label = ''Preencha o campo: '' @ label"

fun all_filled :: "(string \<times> pyval) list \<Rightarrow> (string \<times> string) list \<Rightarrow> string list" where
  "all_filled [] labels = []"
| "all_filled ((k, v) # kvs) labels =
     (if v = PNone then [preencha (labels_get labels k)]
      else if is_blank_str v then [preencha (labels_get labels k)]
      else []) @ all_filled kvs labels"

subsection \<open>\<^verbatim>\<open>validar_payload\<close>\<close>

definition sim :: string where
  "sim = ''Sim''"

definition nao :: string where
  "nao = ''N'' @ [CHR 0xE3] @ ''o''"

text \<open>\<^verbatim>\<open>str(x) if x else None\<close>\<close>

definition str_if_truthy :: "pylib \<Rightarrow> pyval \<Rightarrow> pyval" where
  "str_if_truthy L v = (if truthy v then PStr (py_str L v) else PNone)"

definition obrig_evento_vals :: "pylib \<Rightarrow> pydict \<Rightarrow> (string \<times> pyval) list" where
  "obrig_evento_vals L payload =
    [(''equipamento'', dict_get payload ''equipamento''),
     (''secao'', dict_get payload ''secao''),
     (''data_quebra'', str_if_truthy L (dict_get payload ''data_quebra'')),
     (''hora_quebra'', str_if_truthy L (dict_get payload ''hora_quebra'')),
     (''tempo_reparo_h'', PStr (py_str L (dict_get payload ''tempo_reparo_h''))),
     (''numero_ordem'', dict_get payload ''numero_ordem''),
     (''numero_bda'', dict_get payload ''numero_bda''),
     (''turno'', (if truthy (dict_get payload ''turno'') then dict_get payload ''turno'' else PNone)),
     (''time_bda'', dict_get payload ''time_bda''),
     (''dono_bda'', dict_get payload ''dono_bda''),
     (''categoria_evento'', dict_get payload ''categoria_evento''),
     (''componentes'', dict_get payload ''componentes''),
     (''principio_funcionamento'', dict_get payload ''principio_funcionamento''),
     (''aconteceu_onde'', dict_get payload ''aconteceu_onde''),
     (''aconteceu_antes'', dict_get payload ''aconteceu_antes''),
     (''descricao_reparo'', dict_get payload ''descricao_reparo''),
     (''modo_falha'', dict_get payload ''modo_falha'')]"

definition labels :: "(string \<times> string) list" where
  "labels =
    [(''equipamento'', ''Equipamento''),
     (''secao'', ''Se'' @ [CHR 0xE7, CHR 0xE3] @ ''o/Local''),
     (''data_quebra'', ''Data da quebra''),
     (''hora_quebra'', ''Hora da quebra''),
     (''tempo_reparo_h'', ''Tempo de reparo (h)''),
     (''numero_ordem'', ''N'' @ [CHR 0xBA] @ '' Ordem''),
     (''numero_bda'', ''N'' @ [CHR 0xBA] @ '' BDA''),
     (''turno'', ''Turno''),
     (''time_bda'', ''Time da BDA''),
     (''dono_bda'', ''Dono da BDA''),
     (''categoria_evento'', ''Categoria''),
     (''componentes'', ''Componentes''),
     (''principio_funcionamento'', ''Princ'' @ [CHR 0xED] @ ''pio de funcionamento''),
     (''aconteceu_onde'', ''O que aconteceu e onde''),
     (''aconteceu_antes'', ''O que aconteceu antes''),
     (''descricao_reparo'', ''Descri'' @ [CHR 0xE7, CHR 0xE3] @ ''o do reparo''),
     (''modo_falha'', ''Modo da falha'')]"

definition plan_vals :: "pylib \<Rightarrow> pydict \<Rightarrow> (string \<times> pyval) list" where
  "plan_vals L payload =
    [(''plano_sap'', dict_get payload ''plano_sap''),
     (''descricao_plano'', dict_get payload ''descricao_plano''),
     (''ultimo_executante'', dict_get payload ''ultimo_executante''),
     (''periodicidade_dias'', PStr (py_str L (dict_get payload ''periodicidade_dias''))),
     (''ultima_realizacao'', str_if_truthy L (dict_get payload ''ultima_realizacao'')),
     (''status_plano'', dict_get payload ''status_plano'')]"

definition plan_labels :: "(string \<times> string) list" where
  "plan_labels =
    [(''plano_sap'', ''Plano SAP''),
     (''descricao_plano'', ''Descri'' @ [CHR 0xE7, CHR 0xE3] @ ''o do plano''),
     (''ultimo_executante'', [CHR 0xDA] @ ''ltimo executante''),
     (''periodicidade_dias'', ''Periodicidade (dias)''),
     (''ultima_realizacao'', [CHR 0xDA] @ ''ltima realiza'' @ [CHR 0xE7, CHR 0xE3] @ ''o''),
     (''status_plano'', ''Status do plano'')]"

definition seq_msg :: "nat \<Rightarrow> string" where
  "seq_msg i = ''Linha '' @ str_nat i @ '': preencha os porqu'' @ [CHR 0xEA] @ ''s em sequ'' @
     [CHR 0xEA] @ ''ncia (n'' @ [CHR 0xE3] @ ''o pule etapas).''"

definition causa_msg :: "nat \<Rightarrow> string" where
  "causa_msg i = ''Linha '' @ str_nat i @ '': preencha a Causa vinculada ao '' @ [CHR 0xFA] @
     ''ltimo Por qu'' @ [CHR 0xEA] @ '' preenchido.''"

definition min_whys_msg :: string where
  "min_whys_msg = ''Preencha pelo menos uma linha com no m'' @ [CHR 0xED] @ ''nimo 4 Por qu'' @
     [CHR 0xEA] @ ''s.''"

definition min_acao_msg :: string where
  "min_acao_msg = ''Inclua pelo menos uma a'' @ [CHR 0xE7, CHR 0xE3] @ ''o (descri'' @
     [CHR 0xE7, CHR 0xE3] @ ''o e respons'' @ [CHR 0xE1] @ ''vel).''"

definition auto_desc :: string where
  "auto_desc = ''Implementar de padr'' @ [CHR 0xE3] @ ''o/criar plano de manuten'' @
     [CHR 0xE7, CHR 0xE3] @ ''o para o conjunto afetado''"

definition impl_padrao :: string where
  "impl_padrao = ''Implementa'' @ [CHR 0xE7, CHR 0xE3] @ ''o de padr'' @ [CHR 0xE3] @ ''o''"

definition pq_key :: "nat \<Rightarrow> string" where
  "pq_key j = ''pq'' @ str_nat j"

text \<open>
  The inner loop \<^verbatim>\<open>for j in range(1, 6)\<close> over one row, on the state
  \<open>(seq_ok, filled_count, last_idx)\<close>.
\<close>

fun scan_row :: "pyval \<Rightarrow> nat list \<Rightarrow> bool \<times> nat \<times> nat \<Rightarrow> pyerr + (bool \<times> nat \<times> nat)" where
  "scan_row row [] st = Inr st"
| "scan_row row (j # js) (seq_ok, filled_count, last_idx) =
     (case or_empty_get row (pq_key j) of
        Inl e \<Rightarrow> Inl e
      | Inr val \<Rightarrow>
          (case (if j > 1 then or_empty_get row (pq_key (j - 1)) else Inr PNone) of
             Inl e \<Rightarrow> Inl e
           | Inr prev \<Rightarrow>
               scan_row row js
                 (if truthy val \<and> j > 1 \<and> \<not> truthy prev then False else seq_ok,
                  if truthy val then filled_count + 1 else filled_count,
                  if truthy val then j else last_idx)))"

text \<open>
  The outer loop \<^verbatim>\<open>for i, row in enumerate(whys_grid, start=1)\<close>, on the state
  \<open>(erros, linhas_validas, causas_linhas)\<close>; the list of causes is mutated in place by
  the source and returned here.
\<close>

fun whys_loop :: "nat \<Rightarrow> pyval list \<Rightarrow> string list \<times> nat \<times> pyval list
    \<Rightarrow> pyerr + (string list \<times> nat \<times> pyval list)" where
  "whys_loop i [] st = Inr st"
| "whys_loop i (row # rows) (erros, linhas_validas, causas_linhas) =
     (case scan_row row [1, 2, 3, 4, 5] (True, 0, 0) of
        Inl e \<Rightarrow> Inl e
      | Inr (seq_ok, filled_count, last_idx) \<Rightarrow>
          (let erros1 = erros @ (if \<not> seq_ok then [seq_msg i] else []);
               lv1 = (if filled_count \<ge> 4 then linhas_validas + 1 else linhas_validas);
               causa_info = (if i - 1 < length causas_linhas then causas_linhas ! (i - 1)
                             else PDict [])
           in case (if filled_count > 0 then or_empty_get causa_info ''causa'' else Inr PNone) of
                Inl e \<Rightarrow> Inl e
              | Inr causa \<Rightarrow>
                  if filled_count > 0 \<and> \<not> truthy causa
                  then whys_loop (i + 1) rows (erros1 @ [causa_msg i], lv1, causas_linhas)
                  else if i - 1 < length causas_linhas
                  then (case item_set (causas_linhas ! (i - 1)) ''ultimo_por_que''
                               (PInt (int last_idx)) of
                          Inl e \<Rightarrow> Inl e
                        | Inr c' \<Rightarrow>
                            whys_loop (i + 1) rows (erros1, lv1, causas_linhas[i - 1 := c']))
                  else whys_loop (i + 1) rows (erros1, lv1, causas_linhas)))"

text \<open>\<^verbatim>\<open>a.get("descricao") and a.get("responsavel")\<close>\<close>

definition acao_valida :: "pyval \<Rightarrow> pyerr + bool" where
  "acao_valida a =
     (case attr_get a ''descricao'' of
        Inl e \<Rightarrow> Inl e
      | Inr d \<Rightarrow>
          if truthy d
          then (case attr_get a ''responsavel'' of Inl e \<Rightarrow> Inl e | Inr r \<Rightarrow> Inr (truthy r))
          else Inr False)"

fun acoes_validas :: "pyval list \<Rightarrow> pyerr + pyval list" where
  "acoes_validas [] = Inr []"
| "acoes_validas (a # as) =
     (case acao_valida a of
        Inl e \<Rightarrow> Inl e
      | Inr b \<Rightarrow>
          (case acoes_validas as of
             Inl e \<Rightarrow> Inl e
           | Inr r \<Rightarrow> Inr (if b then a # r else r)))"

text \<open>\<^verbatim>\<open>a.get("descricao", "").lower()\<close>\<close>

definition desc_lower :: "pyval \<Rightarrow> pyerr + string" where
  "desc_lower a =
     (case attr_get_or a ''descricao'' (PStr []) of
        Inl e \<Rightarrow> Inl e
      | Inr v \<Rightarrow> (case v of PStr s \<Rightarrow> Inr (py_lower s) | _ \<Rightarrow> Inl AttributeError))"

text \<open>\<^verbatim>\<open>any(auto_desc.lower() in ... for a in acoes_lista)\<close>, which stops at the first hit.\<close>

fun ja_tem_auto :: "pyval list \<Rightarrow> pyerr + bool" where
  "ja_tem_auto [] = Inr False"
| "ja_tem_auto (a # as) =
     (case desc_lower a of
        Inl e \<Rightarrow> Inl e
      | Inr s \<Rightarrow> if str_contains (py_lower auto_desc) s then Inr True else ja_tem_auto as)"

definition auto_acao :: "pylib \<Rightarrow> pydate \<Rightarrow> pyval" where
  "auto_acao L prazo = PDict
     [(''descricao'', PStr auto_desc),
      (''categoria'', PStr impl_padrao),
      (''responsavel'', PStr ''Definir''),
      (''prazo'', PStr (py_str L (PDate prazo)))]"

text \<open>The branch \<^verbatim>\<open>if existe_plano == "N\<close>...\<^verbatim>\<open>o"\<close>: the list of actions after it and the valid ones.\<close>

definition injetar_auto :: "pylib \<Rightarrow> pydate \<Rightarrow> pyval list \<Rightarrow> pyerr + (pyval list \<times> pyval list)" where
  "injetar_auto L today acoes_lista =
     (case ja_tem_auto acoes_lista of
        Inl e \<Rightarrow> Inl e
      | Inr tem \<Rightarrow>
          (case (if \<not> tem
                 then (case date_add_days today 30 of
                         Inl e \<Rightarrow> Inl e
                       | Inr prazo \<Rightarrow> Inr (acoes_lista @ [auto_acao L prazo]))
                 else Inr acoes_lista) of
             Inl e \<Rightarrow> Inl e
           | Inr acoes' \<Rightarrow>
               (case acoes_validas acoes' of
                  Inl e \<Rightarrow> Inl e
                | Inr validas \<Rightarrow> Inr (acoes', validas))))"

text \<open>
  \<^verbatim>\<open>validar_payload\<close> returns the list of errors; the lists of causes and of actions, which
  the source mutates in place, are returned with it. \<open>today\<close> is \<^verbatim>\<open>date.today()\<close>.
\<close>

definition validar_payload :: "pylib \<Rightarrow> pydate \<Rightarrow> pydict \<Rightarrow> pyval list \<Rightarrow> pyval list \<Rightarrow> pyval list
    \<Rightarrow> pyerr + (string list \<times> pyval list \<times> pyval list)" where
  "validar_payload L today payload whys_grid causas_linhas acoes_lista =
     (let erros0 = all_filled (obrig_evento_vals L payload) labels;
          existe_plano = dict_get payload ''existe_plano'';
          erros1 = erros0 @ (if existe_plano = PStr sim
                             then all_filled (plan_vals L payload) plan_labels else [])
      in case whys_loop 1 whys_grid (erros1, 0, causas_linhas) of
           Inl e \<Rightarrow> Inl e
         | Inr (erros2, linhas_validas, causas') \<Rightarrow>
             (let erros3 = erros2 @ (if linhas_validas < 1 then [min_whys_msg] else [])
              in case acoes_validas acoes_lista of
                   Inl e \<Rightarrow> Inl e
                 | Inr validas0 \<Rightarrow>
                     (case (if existe_plano = PStr nao then injetar_auto L today acoes_lista
                            else Inr (acoes_lista, validas0)) of
                        Inl e \<Rightarrow> Inl e
                      | Inr (acoes', validas) \<Rightarrow>
                          Inr (erros3 @ (if length validas < 1 then [min_acao_msg] else []),
                               causas', acoes'))))"

section \<open>Normalisation\<close>

subsection \<open>\<^verbatim>\<open>int()\<close> and \<^verbatim>\<open>float()\<close>\<close>

definition is_digit :: "char \<Rightarrow> bool" where
  "is_digit c = (c \<in> set ''0123456789'')"

definition digit_val :: "char \<Rightarrow> nat" where
  "digit_val c = of_char c - 48"

definition digits_value :: "string \<Rightarrow> nat" where
  "digits_value ds = foldl (\<lambda>acc c. 10 * acc + digit_val c) 0 ds"

text \<open>Digits, with single underscores between them allowed.\<close>

fun digits_ok :: "string \<Rightarrow> bool" where
  "digits_ok [] = False"
| "digits_ok [c] = is_digit c"
| "digits_ok (c # d # cs) =
     (is_digit c \<and> (if d = CHR ''_'' then digits_ok cs else digits_ok (d # cs)))"

definition int_of_str :: "string \<Rightarrow> int option" where
  "int_of_str s =
     (let t = py_strip s;
          neg = (t \<noteq> [] \<and> hd t = CHR ''-'');
          body = (if t \<noteq> [] \<and> (hd t = CHR ''-'' \<or> hd t = CHR ''+'') then tl t else t)
      in if digits_ok body
         then Some ((if neg then - 1 else 1) * int (digits_value (filter is_digit body)))
         else None)"

definition float_trunc :: "rat \<Rightarrow> int" where
  "float_trunc r = (if 0 \<le> r then \<lfloor>r\<rfloor> else \<lceil>r\<rceil>)"

fun py_int :: "pyval \<Rightarrow> pyerr + int" where
  "py_int (PInt n) = Inr n"
| "py_int (PBool b) = Inr (if b then 1 else 0)"
| "py_int (PFloat FNaN) = Inl ValueError"
| "py_int (PFloat (FInf b)) = Inl OverflowError"
| "py_int (PFloat (FFin r)) = Inr (float_trunc r)"
| "py_int (PStr s) = (case int_of_str s of None \<Rightarrow> Inl ValueError | Some n \<Rightarrow> Inr n)"
| "py_int _ = Inl TypeError"

fun py_float :: "pylib \<Rightarrow> pyval \<Rightarrow> pyerr + pyfloat" where
  "py_float L (PFloat f) = Inr f"
| "py_float L (PInt n) = (if \<bar>n\<bar> < 2 ^ 1024 then Inr (FFin (of_int n)) else Inl OverflowError)"
| "py_float L (PBool b) = Inr (FFin (if b then 1 else 0))"
| "py_float L (PStr s) = (case lib_float L s of None \<Rightarrow> Inl ValueError | Some f \<Rightarrow> Inr f)"
| "py_float L _ = Inl TypeError"

text \<open>\<^verbatim>\<open>x or y\<close>, and \<^verbatim>\<open>try: return x / except Exception: return y\<close>.\<close>

definition py_or :: "pyval \<Rightarrow> pyval \<Rightarrow> pyval" where
  "py_or x y = (if truthy x then x else y)"

definition catch :: "pyerr + 'a \<Rightarrow> 'a \<Rightarrow> 'a" where
  "catch r dflt = (case r of Inl e \<Rightarrow> dflt | Inr v \<Rightarrow> v)"

subsection \<open>\<^verbatim>\<open>_parse_date\<close>, \<^verbatim>\<open>_parse_time\<close>, \<^verbatim>\<open>_safe_json_loads\<close>\<close>

fun parse_date :: "pylib \<Rightarrow> pyval \<Rightarrow> pyval" where
  "parse_date L PNone = PNone"
| "parse_date L (PDate d) = PDate d"
| "parse_date L (PDateTime d t) = PDate d"
| "parse_date L (PStr s) =
     (if py_strip s = [] then PNone
      else (case lib_to_date L (py_strip s) of None \<Rightarrow> PNone | Some v \<Rightarrow> v))"
| "parse_date L _ = PNone"

text \<open>\<^verbatim>\<open>s.split(":")\<close>\<close>

fun split_on :: "char \<Rightarrow> string \<Rightarrow> string list" where
  "split_on sep [] = [[]]"
| "split_on sep (c # cs) =
     (if c = sep then [] # split_on sep cs
      else (case split_on sep cs of [] \<Rightarrow> [[c]] | p # ps \<Rightarrow> (c # p) # ps))"

text \<open>\<^verbatim>\<open>datetime.time(hour=hh, minute=mm, second=ss)\<close>\<close>

definition dt_time :: "int \<Rightarrow> int \<Rightarrow> int \<Rightarrow> pyerr + pytime" where
  "dt_time hh mm ss =
     (if 0 \<le> hh \<and> hh < 24 \<and> 0 \<le> mm \<and> mm < 60 \<and> 0 \<le> ss \<and> ss < 60
      then Inr (Time (nat hh) (nat mm) (nat ss) 0) else Inl ValueError)"

definition int_part :: "string list \<Rightarrow> nat \<Rightarrow> pyerr + int" where
  "int_part parts i = (if i < length parts then py_int (PStr (parts ! i)) else Inr 0)"

text \<open>The body of the \<^verbatim>\<open>try\<close> of \<^verbatim>\<open>_parse_time\<close> on a non-blank string.\<close>

definition time_of_str :: "string \<Rightarrow> pyerr + pytime" where
  "time_of_str s =
     (let parts = split_on CHR '':'' s
      in case py_int (PStr (parts ! 0)) of
           Inl e \<Rightarrow> Inl e
         | Inr hh \<Rightarrow>
             (case int_part parts 1 of
                Inl e \<Rightarrow> Inl e
              | Inr mm \<Rightarrow>
                  (case int_part parts 2 of
                     Inl e \<Rightarrow> Inl e
                   | Inr ss \<Rightarrow> dt_time hh mm ss)))"

text \<open>\<open>now\<close> is \<^verbatim>\<open>datetime.now().time()\<close>.\<close>

fun parse_time :: "pytime \<Rightarrow> pyval \<Rightarrow> pytime" where
  "parse_time now (PTime t) = t"
| "parse_time now (PDateTime d t) = t"
| "parse_time now (PStr s) =
     (if py_strip s = [] then now else catch (time_of_str (py_strip s)) now)"
| "parse_time now _ = now"

fun safe_json_loads :: "pylib \<Rightarrow> pyval \<Rightarrow> pyval \<Rightarrow> pyval" where
  "safe_json_loads L PNone dflt = dflt"
| "safe_json_loads L (PList xs) dflt = PList xs"
| "safe_json_loads L (PDict kv) dflt = PDict kv"
| "safe_json_loads L (PStr s) dflt =
     (if py_strip s = [] then dflt
      else (case lib_json_loads L s of None \<Rightarrow> dflt | Some v \<Rightarrow> v))"
| "safe_json_loads L _ dflt = dflt"

subsection \<open>\<^verbatim>\<open>normalizar_dados_bda\<close>\<close>

definition text_keys :: "string list" where
  "text_keys =
    [''equipamento'', ''secao'', ''numero_ordem'', ''numero_bda'', ''turno'', ''time_bda'',
     ''dono_bda'', ''categoria_evento'', ''componentes'', ''principio_funcionamento'',
     ''aconteceu_onde'', ''aconteceu_antes'', ''descricao_reparo'', ''modo_falha'',
     ''plano_sap'', ''descricao_plano'', ''ultimo_executante'', ''status_plano'',
     ''existe_plano'', ''caminho_imagem'', ''criado_por'', ''atualizado_por'',
     ''atualizado_em'']"

definition fill_text :: "string \<Rightarrow> pydict \<Rightarrow> pydict" where
  "fill_text k d = (if dict_get d k = PNone then d(k \<mapsto> PStr []) else d)"

definition fill_existe_plano :: "pydict \<Rightarrow> pydict" where
  "fill_existe_plano d =
     (if dict_get d ''existe_plano'' \<noteq> PStr sim \<and> dict_get d ''existe_plano'' \<noteq> PStr nao
      then d(''existe_plano'' \<mapsto> PStr (if truthy (dict_get d ''plano_sap'') then sim else nao))
      else d)"

text \<open>
  The assignments of the typed fields, \<^verbatim>\<open>d["data_quebra"] = ...\<close> to
  \<^verbatim>\<open>d["causas_linhas"] = ...\<close>, on the copy \<^verbatim>\<open>d = dict(dados)\<close>. \<open>today\<close> is \<^verbatim>\<open>date.today()\<close> and
  \<open>now\<close> is \<^verbatim>\<open>datetime.now().time()\<close>.
\<close>

definition typed_fields :: "pylib \<Rightarrow> pydate \<Rightarrow> pytime \<Rightarrow> pydict \<Rightarrow> pydict" where
  "typed_fields L today now dados =
     (let d1 = dados(''data_quebra'' \<mapsto>
                 py_or (parse_date L (dict_get dados ''data_quebra'')) (PDate today));
          d2 = d1(''hora_quebra'' \<mapsto> PTime (parse_time now (dict_get d1 ''hora_quebra'')));
          d3 = d2(''ultima_realizacao'' \<mapsto> parse_date L (dict_get d2 ''ultima_realizacao''));
          d4 = d3(''tempo_reparo_h'' \<mapsto> PFloat (catch
                 (py_float L (py_or (dict_get d3 ''tempo_reparo_h'') (PFloat (FFin 0))))
                 (FFin 0)));
          d5 = d4(''periodicidade_dias'' \<mapsto> PInt (catch
                 (py_int (py_or (dict_get d4 ''periodicidade_dias'') (PInt 0))) 0));
          d6 = d5(''cinco_porques_grid'' \<mapsto>
                 safe_json_loads L (dict_get d5 ''cinco_porques_grid'') (PList []));
          d7 = d6(''acoes_lista'' \<mapsto> safe_json_loads L (dict_get d6 ''acoes_lista'') (PList []))
      in d7(''causas_linhas'' \<mapsto> safe_json_loads L (dict_get d7 ''causas_linhas'') (PList [])))"

text \<open>
  Every exception of the body is caught where it is raised, so the function has a result
  for every input; the result type keeps the place of an exception all the same.
\<close>

definition normalizar_dados_bda :: "pylib \<Rightarrow> pydate \<Rightarrow> pytime \<Rightarrow> pydict \<Rightarrow> pyerr + pydict" where
  "normalizar_dados_bda L today now dados =
     (if dados = Map.empty then Inr Map.empty
      else Inr (fill_existe_plano (fold fill_text text_keys (typed_fields L today now dados))))"

section \<open>Persistence\<close>

subsection \<open>\<^verbatim>\<open>_montar_db_payload\<close>\<close>

definition DB_COLUMNS :: "string list" where
  "DB_COLUMNS =
    [''equipamento'', ''secao'', ''data_quebra'', ''hora_quebra'', ''tempo_reparo_h'',
     ''numero_ordem'', ''numero_bda'', ''turno'', ''centro_custo'', ''aconteceu_onde'',
     ''aconteceu_antes'', ''descricao_reparo'', ''modo_falha'', ''acoes_corretivas'',
     ''responsavel_corretiva'', ''quando_corretiva'', ''plano_sap'', ''descricao_plano'',
     ''responsavel_plano'', ''periodicidade_dias'', ''ultima_realizacao'', ''caminho_imagem'',
     ''criticidade'', ''categoria'', ''classificacao'', ''causa_raiz'', ''cinco_porques'',
     ''componentes'', ''custo_pecas'', ''custo_mo'', ''time_bda'', ''dono_bda'',
     ''categoria_evento'', ''cinco_porques_grid'', ''acoes_lista'', ''ultimo_executante'',
     ''status_plano'', ''existe_plano'', ''principio_funcionamento'', ''causas_linhas'',
     ''criado_por'', ''atualizado_por'', ''atualizado_em'']"

text \<open>\<^verbatim>\<open>datetime.now().isoformat(sep=" ", timespec="seconds")\<close>\<close>

definition now_ts :: "pydate \<Rightarrow> pytime \<Rightarrow> string" where
  "now_ts d t = (case t of Time h m s us \<Rightarrow> str_date d @ '' '' @ str_time (Time h m s 0))"

text \<open>\<^verbatim>\<open>json.dumps(payload.get(k1) or payload.get(k2) or [], ensure_ascii=False)\<close>\<close>

definition json_field :: "pylib \<Rightarrow> pydict \<Rightarrow> string \<Rightarrow> string \<Rightarrow> pyerr + pyval" where
  "json_field L payload k1 k2 =
     (case lib_json_dumps L (py_or (dict_get payload k1) (py_or (dict_get payload k2) (PList []))) of
        None \<Rightarrow> Inl TypeError
      | Some s \<Rightarrow> Inr (PStr s))"

definition alist_get :: "(string \<times> pyval) list \<Rightarrow> string \<Rightarrow> pyval" where
  "alist_get kv k = dict_get (map_of kv) k"

text \<open>
  The dict literal \<^verbatim>\<open>db_payload\<close> of \<^verbatim>\<open>_montar_db_payload\<close>, once the conversions of its
  entries have returned. \<open>today\<close> and \<open>now\<close> are the date and time of \<^verbatim>\<open>datetime.now()\<close>.
\<close>

definition db_payload_lit :: "pylib \<Rightarrow> pydate \<Rightarrow> pytime \<Rightarrow> pydict \<Rightarrow> pyval \<Rightarrow> string \<Rightarrow> bool
    \<Rightarrow> pyfloat \<Rightarrow> int \<Rightarrow> pyval \<Rightarrow> pyval \<Rightarrow> pyval \<Rightarrow> (string \<times> pyval) list" where
  "db_payload_lit L today now payload caminho_imagem user_tag is_update
       tempo periodicidade whys acoes causas =
    [(''equipamento'', dict_get payload ''equipamento''),
     (''secao'', dict_get payload ''secao''),
     (''data_quebra'', str_if_truthy L (dict_get payload ''data_quebra'')),
     (''hora_quebra'', str_if_truthy L (dict_get payload ''hora_quebra'')),
     (''tempo_reparo_h'', PFloat tempo),
     (''numero_ordem'', dict_get payload ''numero_ordem''),
     (''numero_bda'', dict_get payload ''numero_bda''),
     (''turno'', dict_get payload ''turno''),
     (''centro_custo'', PNone),
     (''aconteceu_onde'', dict_get payload ''aconteceu_onde''),
     (''aconteceu_antes'', dict_get payload ''aconteceu_antes''),
     (''descricao_reparo'', dict_get payload ''descricao_reparo''),
     (''modo_falha'', dict_get payload ''modo_falha''),
     (''acoes_corretivas'', PNone),
     (''responsavel_corretiva'', PNone),
     (''quando_corretiva'', PNone),
     (''plano_sap'', dict_get payload ''plano_sap''),
     (''descricao_plano'', dict_get payload ''descricao_plano''),
     (''responsavel_plano'', PNone),
     (''periodicidade_dias'', PInt periodicidade),
     (''ultima_realizacao'', str_if_truthy L (dict_get payload ''ultima_realizacao'')),
     (''caminho_imagem'', caminho_imagem),
     (''criticidade'', PNone),
     (''categoria'', PNone),
     (''classificacao'', PNone),
     (''causa_raiz'', PNone),
     (''cinco_porques'', PNone),
     (''componentes'', dict_get payload ''componentes''),
     (''custo_pecas'', PNone),
     (''custo_mo'', PNone),
     (''time_bda'', dict_get payload ''time_bda''),
     (''dono_bda'', dict_get payload ''dono_bda''),
     (''categoria_evento'', dict_get payload ''categoria_evento''),
     (''cinco_porques_grid'', whys),
     (''acoes_lista'', acoes),
     (''ultimo_executante'', dict_get payload ''ultimo_executante''),
     (''status_plano'', dict_get payload ''status_plano''),
     (''existe_plano'', dict_get payload ''existe_plano''),
     (''principio_funcionamento'', dict_get payload ''principio_funcionamento''),
     (''causas_linhas'', causas),
     (''criado_por'', if is_update then PNone else PStr user_tag),
     (''atualizado_por'', if is_update then PStr user_tag else PNone),
     (''atualizado_em'', if is_update then PStr (now_ts today now) else PNone)]"

text \<open>The storage row of a payload, in the order of \<^verbatim>\<open>DB_COLUMNS\<close>.\<close>

definition montar_db_payload :: "pylib \<Rightarrow> pydate \<Rightarrow> pytime \<Rightarrow> pydict \<Rightarrow> pyval \<Rightarrow> string \<Rightarrow> bool
    \<Rightarrow> pyerr + (string \<times> pyval) list" where
  "montar_db_payload L today now payload caminho_imagem user_tag is_update =
     (case py_float L (py_or (dict_get payload ''tempo_reparo_h'') (PFloat (FFin 0))) of
        Inl e \<Rightarrow> Inl e
      | Inr tempo \<Rightarrow>
     (case py_int (py_or (dict_get payload ''periodicidade_dias'') (PInt 0)) of
        Inl e \<Rightarrow> Inl e
      | Inr periodicidade \<Rightarrow>
     (case json_field L payload ''_whys_grid'' ''cinco_porques_grid'' of
        Inl e \<Rightarrow> Inl e
      | Inr whys \<Rightarrow>
     (case json_field L payload ''_acoes_lista'' ''acoes_lista'' of
        Inl e \<Rightarrow> Inl e
      | Inr acoes \<Rightarrow>
     (case json_field L payload ''_causas_linhas'' ''causas_linhas'' of
        Inl e \<Rightarrow> Inl e
      | Inr causas \<Rightarrow>
          Inr (map (\<lambda>k. (k, alist_get
                 (db_payload_lit L today now payload caminho_imagem user_tag is_update
                    tempo periodicidade whys acoes causas) k)) DB_COLUMNS))))))"

subsection \<open>The table\<close>

text \<open>
  The table \<^verbatim>\<open>bda\<close>: its columns, its rows by \<^verbatim>\<open>id\<close>, and the last \<^verbatim>\<open>AUTOINCREMENT\<close> value. A
  row maps a column to its value; \<^verbatim>\<open>NULL\<close> is \<open>PNone\<close>, which is also what \<open>dict_get\<close> reads
  in a column the row has no value for. The conversions of SQLite's column affinity are
  not modelled: a value is stored as it is bound.
\<close>

record database =
  db_cols :: "string list"
  db_rows :: "int \<rightharpoonup> pydict"
  db_seq :: int

text \<open>What \<^verbatim>\<open>sqlite3\<close> binds for a Python value.\<close>

fun sql_adapt :: "pyval \<Rightarrow> pyerr + pyval" where
  "sql_adapt PNone = Inr PNone"
| "sql_adapt (PBool b) = Inr (PInt (if b then 1 else 0))"
| "sql_adapt (PInt n) = (if - (2 ^ 63) \<le> n \<and> n < 2 ^ 63 then Inr (PInt n) else Inl OverflowError)"
| "sql_adapt (PFloat f) = Inr (if f = FNaN then PNone else PFloat f)"
| "sql_adapt (PStr s) = Inr (PStr s)"
| "sql_adapt (PDate d) = Inr (PStr (str_date d))"
| "sql_adapt (PDateTime d t) = Inr (PStr (str_date d @ '' '' @ str_time t))"
| "sql_adapt _ = Inl SqliteError"

fun sql_adapt_all :: "(string \<times> pyval) list \<Rightarrow> pyerr + (string \<times> pyval) list" where
  "sql_adapt_all [] = Inr []"
| "sql_adapt_all ((k, v) # kvs) =
     (case sql_adapt v of
        Inl e \<Rightarrow> Inl e
      | Inr v' \<Rightarrow> (case sql_adapt_all kvs of Inl e \<Rightarrow> Inl e | Inr r \<Rightarrow> Inr ((k, v') # r)))"

subsection \<open>\<^verbatim>\<open>inserir_bda\<close> and \<^verbatim>\<open>atualizar_bda\<close>\<close>

text \<open>
  An upload is any value of \<^verbatim>\<open>_imagem_upload\<close> but \<^verbatim>\<open>None\<close>; \<open>new_path\<close> is the path under which
  \<^verbatim>\<open>salvar_imagem\<close> stores it (a random name). \<open>utc\<close> is SQLite's \<^verbatim>\<open>CURRENT_TIMESTAMP\<close>.
\<close>

definition inserir_bda :: "pylib \<Rightarrow> pydate \<Rightarrow> pytime \<Rightarrow> string \<Rightarrow> string \<Rightarrow> database \<Rightarrow> pydict \<Rightarrow> string
    \<Rightarrow> pyerr + database" where
  "inserir_bda L today now utc new_path db payload user_tag =
     (let img_path = (if dict_get payload ''_imagem_upload'' \<noteq> PNone then PStr new_path else PNone)
      in case montar_db_payload L today now payload img_path user_tag False of
           Inl e \<Rightarrow> Inl e
         | Inr db_payload \<Rightarrow>
             (case sql_adapt_all db_payload of
                Inl e \<Rightarrow> Inl e
              | Inr vals \<Rightarrow>
                  if \<not> set (map fst vals) \<subseteq> set (db_cols db) then Inl SqliteError
                  else Inr (db\<lparr>db_rows := (db_rows db)(db_seq db + 1 \<mapsto>
                                   (map_of vals)(''id'' \<mapsto> PInt (db_seq db + 1),
                                                 ''created_at'' \<mapsto> PStr utc)),
                                 db_seq := db_seq db + 1\<rparr>)))"

definition atualizar_bda :: "pylib \<Rightarrow> pydate \<Rightarrow> pytime \<Rightarrow> string \<Rightarrow> database \<Rightarrow> int \<Rightarrow> pydict \<Rightarrow> string
    \<Rightarrow> pyval \<Rightarrow> pyerr + database" where
  "atualizar_bda L today now new_path db bda_id payload user_tag caminho_imagem_atual =
     (let img_path = (if dict_get payload ''_imagem_upload'' = PNone then caminho_imagem_atual
                      else PStr new_path)
      in case montar_db_payload L today now payload img_path user_tag True of
           Inl e \<Rightarrow> Inl e
         | Inr db_payload \<Rightarrow>
             (case sql_adapt_all db_payload of
                Inl e \<Rightarrow> Inl e
              | Inr vals \<Rightarrow>
                  if \<not> set (map fst vals) \<subseteq> set (db_cols db) then Inl SqliteError
                  else Inr (case db_rows db bda_id of
                              None \<Rightarrow> db
                            | Some row \<Rightarrow>
                                db\<lparr>db_rows := (db_rows db)(bda_id \<mapsto> row ++ map_of vals)\<rparr>)))"

subsection \<open>\<^verbatim>\<open>ensure_schema\<close>\<close>

definition base_cols :: "string list" where
  "base_cols =
    [''id'', ''equipamento'', ''secao'', ''data_quebra'', ''hora_quebra'', ''tempo_reparo_h'',
     ''numero_ordem'', ''numero_bda'', ''turno'', ''centro_custo'', ''aconteceu_onde'',
     ''aconteceu_antes'', ''descricao_reparo'', ''modo_falha'', ''acoes_corretivas'',
     ''responsavel_corretiva'', ''quando_corretiva'', ''plano_sap'', ''descricao_plano'',
     ''responsavel_plano'', ''periodicidade_dias'', ''ultima_realizacao'', ''caminho_imagem'',
     ''criticidade'', ''categoria'', ''classificacao'', ''causa_raiz'', ''cinco_porques'',
     ''componentes'', ''custo_pecas'', ''custo_mo'', ''created_at'', ''time_bda'', ''dono_bda'',
     ''categoria_evento'', ''cinco_porques_grid'', ''acoes_lista'', ''ultimo_executante'',
     ''status_plano'', ''existe_plano'', ''principio_funcionamento'', ''causas_linhas'']"

definition new_cols :: "(string \<times> string) list" where
  "new_cols =
    [(''time_bda'', ''TEXT''), (''dono_bda'', ''TEXT''), (''categoria_evento'', ''TEXT''),
     (''cinco_porques_grid'', ''TEXT''), (''acoes_lista'', ''TEXT''),
     (''ultimo_executante'', ''TEXT''), (''status_plano'', ''TEXT''), (''existe_plano'', ''TEXT''),
     (''principio_funcionamento'', ''TEXT''), (''causas_linhas'', ''TEXT''),
     (''criado_por'', ''TEXT''), (''atualizado_por'', ''TEXT''), (''atualizado_em'', ''TIMESTAMP'')]"

text \<open>
  The result of a run of \<^verbatim>\<open>ensure_schema\<close>: the exception that ended it, if any, the table
  it leaves, and the columns for which an \<^verbatim>\<open>ALTER TABLE\<close> was executed, in order.
\<close>

record schema_run =
  run_error :: "pyerr option"
  run_db :: database
  run_attempted :: "string list"

text \<open>
  The loop \<^verbatim>\<open>for col, typ in new_cols.items()\<close>. \<open>existing\<close> is the set of columns read before
  the loop. Whether an \<^verbatim>\<open>ALTER TABLE ... ADD COLUMN\<close> fails is decided outside the program;
  \<open>fails col\<close> says that the statement for \<open>col\<close> raises. The loop has no handler, so the
  exception ends it.
\<close>

fun add_cols :: "(string \<Rightarrow> bool) \<Rightarrow> string list \<Rightarrow> (string \<times> string) list \<Rightarrow> schema_run \<Rightarrow> schema_run" where
  "add_cols fails existing [] r = r"
| "add_cols fails existing ((col, typ) # cols) r =
     (if col \<notin> set existing
      then (if fails col
            then r\<lparr>run_error := Some SqliteError, run_attempted := run_attempted r @ [col]\<rparr>
            else add_cols fails existing cols
                   (r\<lparr>run_db := (run_db r)\<lparr>db_cols := db_cols (run_db r) @ [col]\<rparr>,
                      run_attempted := run_attempted r @ [col]\<rparr>))
      else add_cols fails existing cols r)"

text \<open>\<^verbatim>\<open>CREATE TABLE IF NOT EXISTS\<close>; \<open>None\<close> is a database file without the table.\<close>

definition create_table :: "database option \<Rightarrow> database" where
  "create_table db0 =
     (case db0 of
        None \<Rightarrow> \<lparr>db_cols = base_cols, db_rows = Map.empty, db_seq = 0\<rparr>
      | Some d \<Rightarrow> d)"

definition ensure_schema :: "(string \<Rightarrow> bool) \<Rightarrow> database option \<Rightarrow> schema_run" where
  "ensure_schema fails db0 =
     add_cols fails (db_cols (create_table db0)) new_cols
       \<lparr>run_error = None, run_db = create_table db0, run_attempted = []\<rparr>"

section \<open>A reference library\<close>

text \<open>
  One library for the parameters of \<open>pylib\<close>, for the closed facts below. It is a restriction
  of the real one: where it answers, CPython, pandas and the \<^verbatim>\<open>json\<close> module give the same
  answer; where the text is outside what is modelled (a JSON number with a fraction or an
  exponent, a date that is not written year-month-day, a numeral with an exponent), it
  raises. The \<^verbatim>\<open>repr\<close> of a list or of a dict is not modelled: \<open>ref_repr\<close> has the empty text
  in its place, and no fact below reaches it.
\<close>

definition join_with :: "string \<Rightarrow> string list \<Rightarrow> string" where
  "join_with sep xs = (case xs of [] \<Rightarrow> [] | y # ys \<Rightarrow> y @ concat (map (\<lambda>z. sep @ z) ys))"

definition hex_char :: "nat \<Rightarrow> char" where
  "hex_char n = (''0123456789abcdef'' ! (n mod 16))"

text \<open>\<^verbatim>\<open>json.dumps(x, ensure_ascii=False)\<close>\<close>

definition json_escape_char :: "char \<Rightarrow> string" where
  "json_escape_char c =
     (if c = CHR 0x22 then [CHR 0x5C, CHR 0x22]
      else if c = CHR 0x5C then [CHR 0x5C, CHR 0x5C]
      else if c = CHR 0x0A then [CHR 0x5C, CHR ''n'']
      else if c = CHR 0x0D then [CHR 0x5C, CHR ''r'']
      else if c = CHR 0x09 then [CHR 0x5C, CHR ''t'']
      else if c = CHR 0x08 then [CHR 0x5C, CHR ''b'']
      else if c = CHR 0x0C then [CHR 0x5C, CHR ''f'']
      else if (of_char c :: nat) < 32
      then [CHR 0x5C, CHR ''u'', CHR ''0'', CHR ''0'', hex_char (of_char c div 16), hex_char (of_char c)]
      else [c])"

definition json_quote :: "string \<Rightarrow> string" where
  "json_quote s = [CHR 0x22] @ concat (map json_escape_char s) @ [CHR 0x22]"

fun json_enc :: "pyval \<Rightarrow> string option"
  and json_enc_list :: "pyval list \<Rightarrow> string list option"
  and json_enc_items :: "(string \<times> pyval) list \<Rightarrow> string list option" where
  "json_enc PNone = Some ''null''"
| "json_enc (PBool b) = Some (if b then ''true'' else ''false'')"
| "json_enc (PInt n) = Some (str_int n)"
| "json_enc (PStr s) = Some (json_quote s)"
| "json_enc (PList xs) =
     (case json_enc_list xs of None \<Rightarrow> None | Some ts \<Rightarrow> Some (''['' @ join_with '', '' ts @ '']''))"
| "json_enc (PDict kv) =
     (case json_enc_items kv of None \<Rightarrow> None | Some ts \<Rightarrow> Some (''{'' @ join_with '', '' ts @ ''}''))"
| "json_enc (PFloat f) = None"
| "json_enc (PDate d) = None"
| "json_enc (PTime t) = None"
| "json_enc (PDateTime d t) = None"
| "json_enc_list [] = Some []"
| "json_enc_list (x # xs) =
     (case json_enc x of
        None \<Rightarrow> None
      | Some t \<Rightarrow> (case json_enc_list xs of None \<Rightarrow> None | Some ts \<Rightarrow> Some (t # ts)))"
| "json_enc_items [] = Some []"
| "json_enc_items (p # ps) =
     (case json_enc (snd p) of
        None \<Rightarrow> None
      | Some t \<Rightarrow>
          (case json_enc_items ps of
             None \<Rightarrow> None
           | Some ts \<Rightarrow> Some ((json_quote (fst p) @ '': '' @ t) # ts)))"

text \<open>\<^verbatim>\<open>json.loads\<close>\<close>

definition json_ws :: "char \<Rightarrow> bool" where
  "json_ws c = (c = CHR 0x20 \<or> c = CHR 0x09 \<or> c = CHR 0x0A \<or> c = CHR 0x0D)"

definition skip_ws :: "string \<Rightarrow> string" where
  "skip_ws s = dropWhile json_ws s"

definition json_escapes :: "(char \<times> char) list" where
  "json_escapes =
     [(CHR 0x22, CHR 0x22), (CHR 0x5C, CHR 0x5C), (CHR ''/'', CHR ''/''), (CHR ''b'', CHR 0x08),
      (CHR ''f'', CHR 0x0C), (CHR ''n'', CHR 0x0A), (CHR ''r'', CHR 0x0D), (CHR ''t'', CHR 0x09)]"

text \<open>The rest of a string after its opening quote; \<^verbatim>\<open>\u\<close> escapes are outside the model.\<close>

fun json_str :: "string \<Rightarrow> string \<Rightarrow> (string \<times> string) option" where
  "json_str [] acc = None"
| "json_str (c # cs) acc =
     (if c = CHR 0x22 then Some (rev acc, cs)
      else if c = CHR 0x5C
      then (case cs of
              [] \<Rightarrow> None
            | e # cs' \<Rightarrow>
                (case map_of json_escapes e of
                   None \<Rightarrow> None
                 | Some ch \<Rightarrow> json_str cs' (ch # acc)))
      else if (of_char c :: nat) < 32 then None
      else json_str cs (c # acc))"

text \<open>An integer literal \<^verbatim>\<open>-?(0|[1-9][0-9]*)\<close> not followed by a fraction or an exponent.\<close>

definition json_int :: "string \<Rightarrow> (pyval \<times> string) option" where
  "json_int s =
     (let neg = (s \<noteq> [] \<and> hd s = CHR ''-'');
          t = (if neg then tl s else s);
          ds = (if t \<noteq> [] \<and> hd t = CHR ''0'' then ''0'' else takeWhile is_digit t);
          r = drop (length ds) t
      in if ds = [] \<or> (r \<noteq> [] \<and> hd r \<in> set ''.eE'') then None
         else Some (PInt ((if neg then - 1 else 1) * int (digits_value ds)), r))"

fun json_value :: "nat \<Rightarrow> string \<Rightarrow> (pyval \<times> string) option"
  and json_elems :: "nat \<Rightarrow> string \<Rightarrow> pyval list \<Rightarrow> (pyval list \<times> string) option"
  and json_members :: "nat \<Rightarrow> string \<Rightarrow> (string \<times> pyval) list
      \<Rightarrow> ((string \<times> pyval) list \<times> string) option" where
  "json_value 0 s = None"
| "json_value (Suc n) s =
     (if s = [] then None
      else if hd s = CHR 0x22
      then (case json_str (tl s) [] of None \<Rightarrow> None | Some (t, r) \<Rightarrow> Some (PStr t, r))
      else if hd s = CHR ''[''
      then (if skip_ws (tl s) \<noteq> [] \<and> hd (skip_ws (tl s)) = CHR '']''
            then Some (PList [], tl (skip_ws (tl s)))
            else (case json_elems n (skip_ws (tl s)) [] of
                    None \<Rightarrow> None
                  | Some (xs, r) \<Rightarrow> Some (PList xs, r)))
      else if hd s = CHR ''{''
      then (if skip_ws (tl s) \<noteq> [] \<and> hd (skip_ws (tl s)) = CHR ''}''
            then Some (PDict [], tl (skip_ws (tl s)))
            else (case json_members n (skip_ws (tl s)) [] of
                    None \<Rightarrow> None
                  | Some (kv, r) \<Rightarrow> Some (PDict kv, r)))
      else if is_prefix ''null'' s then Some (PNone, drop 4 s)
      else if is_prefix ''true'' s then Some (PBool True, drop 4 s)
      else if is_prefix ''false'' s then Some (PBool False, drop 5 s)
      else json_int s)"
| "json_elems 0 s acc = None"
| "json_elems (Suc n) s acc =
     (case json_value n s of
        None \<Rightarrow> None
      | Some (v, r) \<Rightarrow>
          (if skip_ws r = [] then None
           else if hd (skip_ws r) = CHR '','' then json_elems n (skip_ws (tl (skip_ws r))) (acc @ [v])
           else if hd (skip_ws r) = CHR '']'' then Some (acc @ [v], tl (skip_ws r))
           else None))"
| "json_members 0 s acc = None"
| "json_members (Suc n) s acc =
     (if s = [] \<or> hd s \<noteq> CHR 0x22 then None
      else (case json_str (tl s) [] of
              None \<Rightarrow> None
            | Some (k, r) \<Rightarrow>
                (if skip_ws r = [] \<or> hd (skip_ws r) \<noteq> CHR '':'' then None
                 else (case json_value n (skip_ws (tl (skip_ws r))) of
                         None \<Rightarrow> None
                       | Some (v, r') \<Rightarrow>
                           (if skip_ws r' = [] then None
                            else if hd (skip_ws r') = CHR '',''
                            then json_members n (skip_ws (tl (skip_ws r'))) (alist_set k v acc)
                            else if hd (skip_ws r') = CHR ''}''
                            then Some (alist_set k v acc, tl (skip_ws r'))
                            else None)))))"

definition json_dec :: "string \<Rightarrow> pyval option" where
  "json_dec s =
     (case json_value (Suc (length s)) (skip_ws s) of
        None \<Rightarrow> None
      | Some (v, r) \<Rightarrow> if skip_ws r = [] then Some v else None)"

text \<open>
  A date written \<^verbatim>\<open>YYYY-MM-DD\<close>, within the years a pandas \<^verbatim>\<open>Timestamp\<close> covers in full;
  \<open>ymd2ord\<close> is \<^verbatim>\<open>date.toordinal\<close>.
\<close>

definition is_leap :: "nat \<Rightarrow> bool" where
  "is_leap y = (y mod 4 = 0 \<and> (y mod 100 \<noteq> 0 \<or> y mod 400 = 0))"

definition ymd2ord :: "nat \<Rightarrow> nat \<Rightarrow> nat \<Rightarrow> nat" where
  "ymd2ord y m d =
     (y - 1) * 365 + (y - 1) div 4 - (y - 1) div 100 + (y - 1) div 400
     + days_before_month ! m + (if m > 2 \<and> is_leap y then 1 else 0) + d"

definition iso_date :: "string \<Rightarrow> pyval option" where
  "iso_date s =
     (if length s = 10 \<and> s ! 4 = CHR ''-'' \<and> s ! 7 = CHR ''-''
         \<and> list_all is_digit (take 4 s @ take 2 (drop 5 s) @ drop 8 s)
      then (let y = digits_value (take 4 s);
                m = digits_value (take 2 (drop 5 s));
                d = digits_value (drop 8 s)
            in if 1678 \<le> y \<and> y \<le> 2261 \<and> 1 \<le> m \<and> m \<le> 12 \<and> 1 \<le> d
                  \<and> d \<le> days_in_month ! m + (if m = 2 \<and> is_leap y then 1 else 0)
               then Some (PDate (Date (int (ymd2ord y m d)))) else None)
      else None)"

text \<open>\<^verbatim>\<open>float(s)\<close> on a plain decimal numeral, and \<^verbatim>\<open>repr\<close> of a float with a short expansion.\<close>

definition dec_float :: "string \<Rightarrow> pyfloat option" where
  "dec_float s =
     (let t = py_strip s;
          neg = (t \<noteq> [] \<and> hd t = CHR ''-'');
          body = (if t \<noteq> [] \<and> (hd t = CHR ''-'' \<or> hd t = CHR ''+'') then tl t else t);
          ip = takeWhile is_digit body;
          r = drop (length ip) body;
          fp = (if r \<noteq> [] \<and> hd r = CHR ''.'' then tl r else [])
      in if (ip = [] \<and> fp = []) \<or> \<not> list_all is_digit fp \<or> (r \<noteq> [] \<and> hd r \<noteq> CHR ''.'')
         then None
         else Some (FFin ((if neg then - 1 else 1) *
                (of_nat (digits_value ip) + of_nat (digits_value fp) / 10 ^ length fp))))"

fun frac_digits :: "nat \<Rightarrow> rat \<Rightarrow> string" where
  "frac_digits 0 r = []"
| "frac_digits (Suc n) r =
     (if r = 0 then []
      else digit_char (nat \<lfloor>r * 10\<rfloor>) # frac_digits n (r * 10 - of_int \<lfloor>r * 10\<rfloor>))"

definition float_repr :: "pyfloat \<Rightarrow> string" where
  "float_repr f =
     (case f of
        FNaN \<Rightarrow> ''nan''
      | FInf neg \<Rightarrow> (if neg then ''-inf'' else ''inf'')
      | FFin r \<Rightarrow>
          (if r < 0 then ''-'' else []) @ str_int \<lfloor>\<bar>r\<bar>\<rfloor> @ ''.'' @
          (if \<bar>r\<bar> = of_int \<lfloor>\<bar>r\<bar>\<rfloor> then ''0'' else frac_digits 17 (\<bar>r\<bar> - of_int \<lfloor>\<bar>r\<bar>\<rfloor>)))"

definition ref_repr :: "pyval \<Rightarrow> string" where
  "ref_repr v = (case v of PFloat f \<Rightarrow> float_repr f | _ \<Rightarrow> [])"

definition ref_lib :: pylib where
  "ref_lib = \<lparr>lib_repr = ref_repr, lib_float = dec_float, lib_to_date = iso_date,
              lib_json_loads = json_dec, lib_json_dumps = json_enc\<rparr>"

section \<open>Well-formed inputs\<close>

text \<open>
  The validator reads its lists with \<^verbatim>\<open>.get\<close> and raises on an element that has none. Its
  callers pass what the form builds: rows and causes that are dicts (or nothing), actions
  that are dicts with a textual description.
\<close>

definition is_dict :: "pyval \<Rightarrow> bool" where
  "is_dict v = (case v of PDict kv \<Rightarrow> True | _ \<Rightarrow> False)"

definition is_str :: "pyval \<Rightarrow> bool" where
  "is_str v = (case v of PStr s \<Rightarrow> True | _ \<Rightarrow> False)"

definition wf_row :: "pyval \<Rightarrow> bool" where
  "wf_row r = (is_dict r \<or> \<not> truthy r)"

definition row_val :: "pyval \<Rightarrow> nat \<Rightarrow> pyval" where
  "row_val row j = (case or_empty_get row (pq_key j) of Inl e \<Rightarrow> PNone | Inr v \<Rightarrow> v)"

definition filled :: "pyval \<Rightarrow> nat" where
  "filled row = length (filter (\<lambda>j. truthy (row_val row j)) [1, 2, 3, 4, 5])"

definition acao_ok :: "pyval \<Rightarrow> bool" where
  "acao_ok a = (case a of PDict kv \<Rightarrow> is_str (dict_get_or (map_of kv) ''descricao'' (PStr [])) | _ \<Rightarrow> False)"

definition today_ok :: "pydate \<Rightarrow> bool" where
  "today_ok d = (case d of Date n \<Rightarrow> 1 \<le> n \<and> n + 30 \<le> max_ordinal)"

text \<open>Example data: a row with three whys, five of them, their causes, one action.\<close>

definition ex_row3 :: pyval where
  "ex_row3 = PDict [(''pq1'', PStr ''parou''), (''pq2'', PStr ''sem oleo''), (''pq3'', PStr ''vazamento''),
                    (''pq4'', PStr []), (''pq5'', PStr [])]"

definition ex_causa :: pyval where
  "ex_causa = PDict [(''linha'', PInt 1), (''causa'', PStr ''retentor gasto''), (''ultimo_por_que'', PInt 3)]"

definition ex_acao :: pyval where
  "ex_acao = PDict [(''descricao'', PStr ''trocar retentor''), (''categoria'', PStr ''Corretiva''),
                    (''responsavel'', PStr ''Ana''), (''prazo'', PStr ''2024-02-01'')]"

definition legacy_cols :: "string list" where
  "legacy_cols = [''centro_custo'', ''acoes_corretivas'', ''responsavel_corretiva'',
     ''quando_corretiva'', ''responsavel_plano'', ''criticidade'', ''categoria'',
     ''classificacao'', ''causa_raiz'', ''cinco_porques'', ''custo_pecas'', ''custo_mo'']"

definition ex_row4 :: pyval where
  "ex_row4 = PDict [(''pq1'', PStr ''parou''), (''pq2'', PStr ''sem oleo''), (''pq3'', PStr ''vazamento''),
                    (''pq4'', PStr ''retentor gasto''), (''pq5'', PStr [])]"

definition ex_row0 :: pyval where
  "ex_row0 = PDict [(''pq1'', PStr []), (''pq2'', PStr []), (''pq3'', PStr []),
                    (''pq4'', PStr []), (''pq5'', PStr [])]"

definition ex_causa0 :: pyval where
  "ex_causa0 = PDict [(''linha'', PInt 2), (''causa'', PStr []), (''ultimo_por_que'', PInt 0)]"

definition ex_causa4 :: pyval where
  "ex_causa4 = PDict [(''linha'', PInt 1), (''causa'', PStr ''retentor sem troca''), (''ultimo_por_que'', PInt 4)]"

definition ex_payload :: pydict where
  "ex_payload = map_of
    [(''equipamento'', PStr ''Moinho 2''), (''secao'', PStr ''Torra''),
     (''data_quebra'', PDate (Date 738886)), (''hora_quebra'', PTime (Time 10 30 0 0)),
     (''tempo_reparo_h'', PFloat (FFin (5 / 4))), (''numero_ordem'', PStr ''4001''),
     (''numero_bda'', PStr ''BDA-7''), (''turno'', PStr ''2''), (''time_bda'', PStr ''Manut''),
     (''dono_bda'', PStr ''Ana''), (''categoria_evento'', PStr ''Outros''),
     (''componentes'', PStr ''retentor''), (''principio_funcionamento'', PStr ''moagem''),
     (''aconteceu_onde'', PStr ''vazou no eixo''), (''aconteceu_antes'', PStr ''ruido''),
     (''descricao_reparo'', PStr ''troca''), (''modo_falha'', PStr ''vazamento''),
     (''existe_plano'', PStr sim), (''plano_sap'', PStr ''PM-77''),
     (''descricao_plano'', PStr ''lubrificar''), (''ultimo_executante'', PStr ''Rui''),
     (''periodicidade_dias'', PInt 30), (''ultima_realizacao'', PDate (Date 738800)),
     (''status_plano'', PStr ''No prazo''),
     (''cinco_porques_grid'', PList [ex_row4, ex_row0]),
     (''causas_linhas'', PList [ex_causa4, ex_causa0]),
     (''acoes_lista'', PList [ex_acao]),
     (''caminho_imagem'', PStr []),
     (''_whys_grid'', PList [ex_row4, ex_row0]),
     (''_causas_linhas'', PList [ex_causa4, ex_causa0]),
     (''_acoes_lista'', PList [ex_acao]),
     (''_imagem_upload'', PNone)]"

definition ex_db0 :: database where
  "ex_db0 = run_db (ensure_schema (\<lambda>c. False) None)"

definition bindable :: "pyval \<Rightarrow> bool" where
  "bindable v = (case sql_adapt v of Inl e \<Rightarrow> False | Inr v' \<Rightarrow> True)"

definition ex_db1 :: database where
  "ex_db1 = ex_db0\<lparr>db_rows := [1 \<mapsto> map_of
      [(''id'', PInt 1), (''equipamento'', PStr ''Moinho 2''), (''centro_custo'', PStr ''CC-10''),
       (''causa_raiz'', PStr ''desgaste''), (''custo_pecas'', PFloat (FFin 120)),
       (''criado_por'', PStr ''ana@jde.com (TECNICO)'')]], db_seq := 1\<rparr>"

section \<open>The validator on well-formed inputs\<close>

lemma or_empty_get_wf: "wf_row row \<Longrightarrow> or_empty_get row k = Inr (case or_empty_get row k of Inl e \<Rightarrow> PNone | Inr v \<Rightarrow> v)"
  by (cases row) (auto simp: wf_row_def is_dict_def or_empty_get_def attr_get_def)

lemma scan_row_wf:
  "wf_row row \<Longrightarrow> \<exists>sq li. scan_row row js (s, fc, l) =
      Inr (sq, fc + length (filter (\<lambda>j. truthy (row_val row j)) js), li)"
proof (induction js arbitrary: s fc l)
  case Nil
  then show ?case by simp
next
  case (Cons j js)
  obtain v where v: "or_empty_get row (pq_key j) = Inr v" "v = row_val row j"
    using or_empty_get_wf [OF Cons.prems] by (simp add: row_val_def)
  obtain p where p: "(if j > 1 then or_empty_get row (pq_key (j - 1)) else Inr PNone) = Inr p"
    using or_empty_get_wf [OF Cons.prems] by (cases "j > 1") auto
  let ?s = "if truthy v \<and> j > 1 \<and> \<not> truthy p then False else s"
  let ?fc = "if truthy v then fc + 1 else fc"
  let ?l = "if truthy v then j else l"
  obtain sq li where "scan_row row js (?s, ?fc, ?l) =
      Inr (sq, ?fc + length (filter (\<lambda>j. truthy (row_val row j)) js), li)"
    using Cons.IH [OF Cons.prems, of ?s ?fc ?l] by blast
  then show ?case
    using v p by auto
qed

lemma is_dict_wf_row: "is_dict c \<Longrightarrow> wf_row c"
  by (simp add: wf_row_def)

lemma item_set_dict: "is_dict c \<Longrightarrow> \<exists>kv. item_set c k v = Inr (PDict kv)"
  by (cases c) (auto simp: is_dict_def)

lemma list_all_update: "list_all P xs \<Longrightarrow> P v \<Longrightarrow> list_all P (xs[i := v])"
  using set_update_subset_insert [of xs i v] by (auto simp: list_all_iff)

lemma linha_seq_msg: "is_prefix ''Linha '' (seq_msg i)"
  by (simp add: seq_msg_def)

lemma linha_causa_msg: "is_prefix ''Linha '' (causa_msg i)"
  by (simp add: causa_msg_def)

lemma whys_loop_wf:
  "list_all wf_row rows \<Longrightarrow> list_all is_dict causas \<Longrightarrow>
   \<exists>errs' causas'. whys_loop i rows (errs, lv, causas) =
       Inr (errs @ errs', lv + length (filter (\<lambda>r. 4 \<le> filled r) rows), causas')
     \<and> list_all is_dict causas' \<and> length causas' = length causas
     \<and> list_all (is_prefix ''Linha '') errs'"
proof (induction rows arbitrary: i errs lv causas)
  case Nil
  then show ?case by simp
next
  case (Cons row rows)
  from Cons.prems have wr: "wf_row row" and wrs: "list_all wf_row rows" by simp_all
  obtain sq li where sc: "scan_row row [1, 2, 3, 4, 5] (True, 0, 0) = Inr (sq, filled row, li)"
    using scan_row_wf [OF wr, of "[1, 2, 3, 4, 5]" True 0 0] by (auto simp: filled_def)
  let ?e1 = "errs @ (if \<not> sq then [seq_msg i] else [])"
  let ?lv1 = "if 4 \<le> filled row then lv + 1 else lv"
  let ?ci = "if i - 1 < length causas then causas ! (i - 1) else PDict []"
  have cid: "is_dict ?ci"
    using Cons.prems(2) by (auto simp: list_all_length is_dict_def)
  obtain c where c: "or_empty_get ?ci ''causa'' = Inr c"
    using or_empty_get_wf [OF is_dict_wf_row [OF cid]] by blast
  show ?case
  proof (cases "0 < filled row \<and> \<not> truthy c")
    case True
    obtain errs' causas' where r: "whys_loop (i + 1) rows (?e1 @ [causa_msg i], ?lv1, causas) =
        Inr ((?e1 @ [causa_msg i]) @ errs', ?lv1 + length (filter (\<lambda>r. 4 \<le> filled r) rows), causas')"
      "list_all is_dict causas'" "length causas' = length causas"
      "list_all (is_prefix ''Linha '') errs'"
      using Cons.IH [OF wrs Cons.prems(2), of "i + 1" "?e1 @ [causa_msg i]" ?lv1] by blast
    have "whys_loop i (row # rows) (errs, lv, causas) =
        Inr (errs @ ((if \<not> sq then [seq_msg i] else []) @ [causa_msg i] @ errs'),
             lv + length (filter (\<lambda>r. 4 \<le> filled r) (row # rows)), causas')"
      using sc c True r(1) by (auto simp add: Let_def simp del: scan_row.simps)
    moreover have "list_all (is_prefix ''Linha '')
        ((if \<not> sq then [seq_msg i] else []) @ [causa_msg i] @ errs')"
      using r(4) linha_seq_msg linha_causa_msg by simp
    ultimately show ?thesis using r(2,3) by blast
  next
    case False
    show ?thesis
    proof (cases "i - 1 < length causas")
      case True
      have "is_dict (causas ! (i - 1))"
        using Cons.prems(2) True by (simp add: list_all_length)
      then obtain kv where kv: "item_set (causas ! (i - 1)) ''ultimo_por_que'' (PInt (int li)) = Inr (PDict kv)"
        using item_set_dict by blast
      let ?cs = "causas[i - 1 := PDict kv]"
      have csd: "list_all is_dict ?cs"
        by (rule list_all_update [OF Cons.prems(2)]) (simp add: is_dict_def)
      obtain errs' causas' where r: "whys_loop (i + 1) rows (?e1, ?lv1, ?cs) =
          Inr (?e1 @ errs', ?lv1 + length (filter (\<lambda>r. 4 \<le> filled r) rows), causas')"
        "list_all is_dict causas'" "length causas' = length ?cs"
        "list_all (is_prefix ''Linha '') errs'"
        using Cons.IH [OF wrs csd, of "i + 1" ?e1 ?lv1] by blast
      have "whys_loop i (row # rows) (errs, lv, causas) =
          Inr (errs @ ((if \<not> sq then [seq_msg i] else []) @ errs'),
               lv + length (filter (\<lambda>r. 4 \<le> filled r) (row # rows)), causas')"
        using sc c False True kv r(1) by (auto simp add: Let_def simp del: scan_row.simps)
      moreover have "list_all (is_prefix ''Linha '') ((if \<not> sq then [seq_msg i] else []) @ errs')"
        using r(4) linha_seq_msg by simp
      ultimately show ?thesis using r(2,3) by auto
    next
      case nolen: False
      obtain errs' causas' where r: "whys_loop (i + 1) rows (?e1, ?lv1, causas) =
          Inr (?e1 @ errs', ?lv1 + length (filter (\<lambda>r. 4 \<le> filled r) rows), causas')"
        "list_all is_dict causas'" "length causas' = length causas"
        "list_all (is_prefix ''Linha '') errs'"
        using Cons.IH [OF wrs Cons.prems(2), of "i + 1" ?e1 ?lv1] by blast
      have "whys_loop i (row # rows) (errs, lv, causas) =
          Inr (errs @ ((if \<not> sq then [seq_msg i] else []) @ errs'),
               lv + length (filter (\<lambda>r. 4 \<le> filled r) (row # rows)), causas')"
        using sc c False nolen r(1) by (auto simp add: Let_def simp del: scan_row.simps)
      moreover have "list_all (is_prefix ''Linha '') ((if \<not> sq then [seq_msg i] else []) @ errs')"
        using r(4) linha_seq_msg by simp
      ultimately show ?thesis using r(2,3) by auto
    qed
  qed
qed

lemma acao_valida_ok: "acao_ok a \<Longrightarrow> \<exists>b. acao_valida a = Inr b"
  by (cases a) (auto simp: acao_ok_def acao_valida_def attr_get_def)

lemma acoes_validas_ok: "list_all acao_ok as \<Longrightarrow> \<exists>r. acoes_validas as = Inr r"
proof (induction as)
  case Nil
  then show ?case by simp
next
  case (Cons a as)
  from Cons.prems have "acao_ok a" and "list_all acao_ok as" by simp_all
  then obtain b r where "acao_valida a = Inr b" "acoes_validas as = Inr r"
    using acao_valida_ok [of a] Cons.IH by blast
  then show ?case by simp
qed

lemma desc_lower_ok: "acao_ok a \<Longrightarrow> \<exists>s. desc_lower a = Inr s"
  by (cases a) (auto simp: acao_ok_def desc_lower_def is_str_def split: pyval.splits)

lemma ja_tem_auto_ok: "list_all acao_ok as \<Longrightarrow> \<exists>b. ja_tem_auto as = Inr b"
proof (induction as)
  case Nil
  show ?case by (rule exI [of _ False]) simp
next
  case (Cons a as)
  from Cons.prems have "acao_ok a" and "list_all acao_ok as" by simp_all
  then obtain s b where "desc_lower a = Inr s" "ja_tem_auto as = Inr b"
    using desc_lower_ok [of a] Cons.IH by blast
  then show ?case by (cases "str_contains (py_lower auto_desc) s") auto
qed

lemma auto_acao_ok: "acao_ok (auto_acao L d)"
  by (simp add: acao_ok_def auto_acao_def dict_get_or_def is_str_def)

lemma date_add_days_ok: "today_ok today \<Longrightarrow> date_add_days today 30 = Inr (case today of Date n \<Rightarrow> Date (n + 30))"
  by (cases today) (simp add: today_ok_def date_add_days_def)

lemma injetar_auto_ok:
  assumes "list_all acao_ok as" "today_ok today"
  shows "\<exists>as' vs. injetar_auto L today as = Inr (as', vs)"
proof -
  obtain b where b: "ja_tem_auto as = Inr b"
    using ja_tem_auto_ok [OF assms(1)] by blast
  let ?as' = "if b then as else as @ [auto_acao L (case today of Date n \<Rightarrow> Date (n + 30))]"
  have "list_all acao_ok ?as'"
    using assms(1) auto_acao_ok by simp
  then obtain vs where "acoes_validas ?as' = Inr vs"
    using acoes_validas_ok by blast
  then show ?thesis
    using b date_add_days_ok [OF assms(2)] by (auto simp: injetar_auto_def)
qed



lemma all_filled_prefix: "list_all (is_prefix ''Preencha o campo: '') (all_filled kvs lbls)"
  by (induction kvs lbls rule: all_filled.induct) (simp_all add: preencha_def)

lemma count_list_none: "list_all P xs \<Longrightarrow> \<not> P x \<Longrightarrow> count_list xs x = 0"
  by (induction xs) auto

lemma validar_payload_unfold:
  assumes "whys_loop 1 W (all_filled (obrig_evento_vals L P) labels @
             (if dict_get P ''existe_plano'' = PStr sim then all_filled (plan_vals L P) plan_labels else []),
             0, C) = Inr (e2, lv, C')"
      and "acoes_validas A = Inr v0"
      and "(if dict_get P ''existe_plano'' = PStr nao then injetar_auto L today A else Inr (A, v0)) = Inr (A', V)"
  shows "validar_payload L today P W C A =
     Inr (e2 @ (if lv < 1 then [min_whys_msg] else []) @ (if length V < 1 then [min_acao_msg] else []), C', A')"
  by (simp only: validar_payload_def Let_def assms sum.case prod.case append_assoc)

lemma validar_payload_wf:
  assumes "list_all wf_row W" "list_all is_dict C" "list_all acao_ok A" "today_ok today"
  obtains eL C' A' V where
    "validar_payload L today P W C A =
     Inr ((all_filled (obrig_evento_vals L P) labels @
           (if dict_get P ''existe_plano'' = PStr sim then all_filled (plan_vals L P) plan_labels else [])) @ eL @
          (if list_ex (\<lambda>r. 4 \<le> filled r) W then [] else [min_whys_msg]) @
          (if length V < 1 then [min_acao_msg] else []), C', A')"
    "list_all (is_prefix ''Linha '') eL" "list_all is_dict C'" "length C' = length C"
    "acoes_validas A' = Inr V"
    "A' = (if dict_get P ''existe_plano'' = PStr nao then
             (case ja_tem_auto A of Inr True \<Rightarrow> A
              | _ \<Rightarrow> A @ [auto_acao L (case today of Date n \<Rightarrow> Date (n + 30))]) else A)"
proof -
  let ?e1 = "all_filled (obrig_evento_vals L P) labels @
           (if dict_get P ''existe_plano'' = PStr sim then all_filled (plan_vals L P) plan_labels else [])"
  obtain eL C' where w: "whys_loop 1 W (?e1, 0, C) =
       Inr (?e1 @ eL, 0 + length (filter (\<lambda>r. 4 \<le> filled r) W), C')"
     "list_all is_dict C'" "length C' = length C" "list_all (is_prefix ''Linha '') eL"
    using whys_loop_wf [OF assms(1,2), of 1 ?e1 0] by blast
  obtain v0 where v0: "acoes_validas A = Inr v0"
    using acoes_validas_ok [OF assms(3)] by blast
  obtain b where b: "ja_tem_auto A = Inr b"
    using ja_tem_auto_ok [OF assms(3)] by blast
  let ?A1 = "if b then A else A @ [auto_acao L (case today of Date n \<Rightarrow> Date (n + 30))]"
  have "list_all acao_ok ?A1"
    using assms(3) auto_acao_ok by simp
  then obtain v1 where v1: "acoes_validas ?A1 = Inr v1"
    using acoes_validas_ok by blast
  have i1: "injetar_auto L today A = Inr (?A1, v1)"
    using b v1 date_add_days_ok [OF assms(4)] by (auto simp: injetar_auto_def)
  let ?A' = "if dict_get P ''existe_plano'' = PStr nao then ?A1 else A"
  let ?V = "if dict_get P ''existe_plano'' = PStr nao then v1 else v0"
  have inj: "(if dict_get P ''existe_plano'' = PStr nao then injetar_auto L today A else Inr (A, v0)) = Inr (?A', ?V)"
    using i1 by simp
  have ex: "(0 + length (filter (\<lambda>r. 4 \<le> filled r) W) < 1) = (\<not> list_ex (\<lambda>r. 4 \<le> filled r) W)"
    by (auto simp: list_ex_iff filter_empty_conv)
  have e: "(if \<not> list_ex (\<lambda>r. 4 \<le> filled r) W then [min_whys_msg] else []) =
           (if list_ex (\<lambda>r. 4 \<le> filled r) W then [] else [min_whys_msg])"
    by simp
  have 1: "validar_payload L today P W C A =
     Inr (?e1 @ eL @ (if list_ex (\<lambda>r. 4 \<le> filled r) W then [] else [min_whys_msg]) @
          (if length ?V < 1 then [min_acao_msg] else []), C', ?A')"
    using validar_payload_unfold [OF w(1) v0 inj] unfolding ex e append_assoc .
  have 2: "acoes_validas ?A' = Inr ?V"
    using v0 v1 by simp
  have 3: "?A' = (if dict_get P ''existe_plano'' = PStr nao then
             (case ja_tem_auto A of Inr True \<Rightarrow> A
              | _ \<Rightarrow> A @ [auto_acao L (case today of Date n \<Rightarrow> Date (n + 30))]) else A)"
    using b by simp
  show thesis
    by (rule that [OF 1 w(4) w(2) w(3) 2 3])
qed

lemma min_whys_not_preencha: "\<not> is_prefix ''Preencha o campo: '' min_whys_msg"
  by (simp add: min_whys_msg_def)

lemma min_whys_not_linha: "\<not> is_prefix ''Linha '' min_whys_msg"
  by (simp add: min_whys_msg_def)

lemma min_whys_not_acao: "min_acao_msg \<noteq> min_whys_msg"
  by (simp add: min_whys_msg_def min_acao_msg_def)

lemma count_list_tail:
  "count_list e1 x = 0 \<Longrightarrow> count_list eL x = 0 \<Longrightarrow> y \<noteq> x \<Longrightarrow>
   count_list (e1 @ eL @ (if b then [] else [x]) @ (if c then [y] else [])) x = (if b then 0 else 1)"
  by (cases b; cases c) (simp_all add: count_list_append)

lemma erros1_prefix:
  "list_all (is_prefix ''Preencha o campo: '') (all_filled kvs lbls @ (if c then all_filled kvs' lbls' else []))"
  using all_filled_prefix by simp

text \<open>
  C8. On well-formed lists the validator returns, and the error asking for at least one line
  with four whys is in its result exactly once when no row has four filled positions or
  more (so when every row has exactly three), and not at all as soon as one row has four or
  more, whatever else the rows hold.
\<close>

theorem min_whys_error_iff:
  assumes "list_all wf_row W" "list_all is_dict C" "list_all acao_ok A" "today_ok today"
  shows "\<exists>errs C' A'. validar_payload L today P W C A = Inr (errs, C', A') \<and>
     count_list errs min_whys_msg = (if list_ex (\<lambda>r. 4 \<le> filled r) W then 0 else 1)"
proof -
  let ?e1 = "all_filled (obrig_evento_vals L P) labels @
           (if dict_get P ''existe_plano'' = PStr sim then all_filled (plan_vals L P) plan_labels else [])"
  obtain eL C' A' V where r: "validar_payload L today P W C A =
     Inr (?e1 @ eL @ (if list_ex (\<lambda>r. 4 \<le> filled r) W then [] else [min_whys_msg]) @
          (if length V < 1 then [min_acao_msg] else []), C', A')"
     "list_all (is_prefix ''Linha '') eL" "list_all is_dict C'" "length C' = length C"
     "acoes_validas A' = Inr V"
     "A' = (if dict_get P ''existe_plano'' = PStr nao then
             (case ja_tem_auto A of Inr True \<Rightarrow> A
              | _ \<Rightarrow> A @ [auto_acao L (case today of Date n \<Rightarrow> Date (n + 30))]) else A)"
    by (rule validar_payload_wf [OF assms, of L P])
  have c1: "count_list ?e1 min_whys_msg = 0"
    by (rule count_list_none [where P = "is_prefix ''Preencha o campo: ''", OF erros1_prefix min_whys_not_preencha])
  have c2: "count_list eL min_whys_msg = 0"
    by (rule count_list_none [where P = "is_prefix ''Linha ''", OF r(2) min_whys_not_linha])
  show ?thesis
  proof (intro exI conjI)
    show "validar_payload L today P W C A =
     Inr (?e1 @ eL @ (if list_ex (\<lambda>r. 4 \<le> filled r) W then [] else [min_whys_msg]) @
          (if length V < 1 then [min_acao_msg] else []), C', A')"
      by (rule r(1))
    show "count_list (?e1 @ eL @ (if list_ex (\<lambda>r. 4 \<le> filled r) W then [] else [min_whys_msg]) @
          (if length V < 1 then [min_acao_msg] else [])) min_whys_msg =
          (if list_ex (\<lambda>r. 4 \<le> filled r) W then 0 else 1)"
      by (rule count_list_tail [OF c1 c2 min_whys_not_acao])
  qed
qed

theorem min_whys_error_iff_witness:
  "list_all wf_row [ex_row3, ex_row3, ex_row3, ex_row3, ex_row3]
   \<and> list_all is_dict [ex_causa, ex_causa, ex_causa, ex_causa, ex_causa]
   \<and> list_all acao_ok [ex_acao] \<and> today_ok (Date 738886)
   \<and> filled ex_row3 = 3
   \<and> (\<exists>errs C' A'. validar_payload ref_lib (Date 738886) [''existe_plano'' \<mapsto> PStr sim]
          [ex_row3, ex_row3, ex_row3, ex_row3, ex_row3]
          [ex_causa, ex_causa, ex_causa, ex_causa, ex_causa] [ex_acao] = Inr (errs, C', A')
        \<and> count_list errs min_whys_msg = 1)"
proof -
  have f: "filled ex_row3 = 3"
    by (simp add: filled_def row_val_def or_empty_get_def attr_get_def dict_get_or_def
        pq_key_def str_nat.simps digit_char_def ex_row3_def)
  have h1: "list_all wf_row [ex_row3, ex_row3, ex_row3, ex_row3, ex_row3]"
    by (simp add: wf_row_def is_dict_def ex_row3_def)
  have h2: "list_all is_dict [ex_causa, ex_causa, ex_causa, ex_causa, ex_causa]"
    by (simp add: is_dict_def ex_causa_def)
  have h3: "list_all acao_ok [ex_acao]"
    by (simp add: acao_ok_def ex_acao_def dict_get_or_def is_str_def)
  have h4: "today_ok (Date 738886)"
    by (simp add: today_ok_def max_ordinal_def)
  show ?thesis
    using min_whys_error_iff [OF h1 h2 h3 h4, of ref_lib "[''existe_plano'' \<mapsto> PStr sim]"]
      f h1 h2 h3 h4 by simp
qed



lemma montar_cases:
  assumes "montar_db_payload L today now P img tag upd = Inr dbp"
  obtains tempo per whys acoes causas where
    "py_float L (py_or (dict_get P ''tempo_reparo_h'') (PFloat (FFin 0))) = Inr tempo"
    "py_int (py_or (dict_get P ''periodicidade_dias'') (PInt 0)) = Inr per"
    "json_field L P ''_whys_grid'' ''cinco_porques_grid'' = Inr whys"
    "json_field L P ''_acoes_lista'' ''acoes_lista'' = Inr acoes"
    "json_field L P ''_causas_linhas'' ''causas_linhas'' = Inr causas"
    "dbp = map (\<lambda>k. (k, alist_get (db_payload_lit L today now P img tag upd
                    tempo per whys acoes causas) k)) DB_COLUMNS"
  using assms unfolding montar_db_payload_def by (auto split: sum.splits)

lemma map_of_tabulate: "k \<in> set ks \<Longrightarrow> map_of (map (\<lambda>k. (k, f k)) ks) k = Some (f k)"
  by (induction ks) auto

lemma sql_adapt_all_lookup:
  "sql_adapt_all kvs = Inr vals \<Longrightarrow> map_of kvs k = Some v \<Longrightarrow>
   \<exists>v'. sql_adapt v = Inr v' \<and> map_of vals k = Some v'"
proof (induction kvs arbitrary: vals)
  case Nil
  then show ?case by simp
next
  case (Cons p kvs)
  obtain k0 v0 where p: "p = (k0, v0)" by (cases p)
  from Cons.prems(1) p obtain v0' r where
    r: "sql_adapt v0 = Inr v0'" "sql_adapt_all kvs = Inr r" "vals = (k0, v0') # r"
    by (auto split: sum.splits)
  show ?case
  proof (cases "k0 = k")
    case True
    then show ?thesis using Cons.prems(2) p r by simp
  next
    case False
    then have "map_of kvs k = Some v" using Cons.prems(2) p by simp
    from Cons.IH [OF r(2) this] show ?thesis using False r(3) by simp
  qed
qed

lemma alist_get_Nil: "alist_get [] k = PNone"
  by (simp add: alist_get_def dict_get_def)

lemma alist_get_Cons: "alist_get ((k', v) # kv) k = (if k' = k then v else alist_get kv k)"
  by (simp add: alist_get_def dict_get_def)

lemma legacy_in_cols: "k \<in> set legacy_cols \<Longrightarrow> k \<in> set DB_COLUMNS"
  by (auto simp: legacy_cols_def DB_COLUMNS_def)

lemma audit_in_cols:
  "''criado_por'' \<in> set DB_COLUMNS" "''atualizado_por'' \<in> set DB_COLUMNS"
  "''atualizado_em'' \<in> set DB_COLUMNS"
  by (simp_all add: DB_COLUMNS_def)

lemma lit_legacy:
  "list_all (\<lambda>k. alist_get (db_payload_lit L today now P img tag upd tempo per whys acoes causas) k = PNone)
     legacy_cols"
  by (simp add: legacy_cols_def db_payload_lit_def alist_get_Cons alist_get_Nil)

lemma lit_audit:
  "alist_get (db_payload_lit L today now P img tag True tempo per whys acoes causas) ''criado_por'' = PNone"
  "alist_get (db_payload_lit L today now P img tag True tempo per whys acoes causas) ''atualizado_por'' = PStr tag"
  "alist_get (db_payload_lit L today now P img tag True tempo per whys acoes causas) ''atualizado_em'' = PStr (now_ts today now)"
  "alist_get (db_payload_lit L today now P img tag False tempo per whys acoes causas) ''criado_por'' = PStr tag"
  by (simp_all add: db_payload_lit_def alist_get_Cons alist_get_Nil)

lemma atualizar_row:
  assumes "atualizar_bda L today now np db i P tag img = Inr db'" and "db_rows db i = Some row"
  obtains dbp vals where
    "montar_db_payload L today now P
       (if dict_get P ''_imagem_upload'' = PNone then img else PStr np) tag True = Inr dbp"
    "sql_adapt_all dbp = Inr vals"
    "db_rows db' i = Some (row ++ map_of vals)"
  using assms unfolding atualizar_bda_def Let_def
  by (auto split: sum.splits if_splits)

text \<open>What an update that completes leaves in a column of the row it names.\<close>

lemma atualizar_column:
  assumes "atualizar_bda L today now np db i P tag img = Inr db'" and "db_rows db i = Some row"
      and "k \<in> set DB_COLUMNS"
  obtains row' tempo per whys acoes causas v' where
    "db_rows db' i = Some row'"
    "sql_adapt (alist_get (db_payload_lit L today now P
        (if dict_get P ''_imagem_upload'' = PNone then img else PStr np) tag True
        tempo per whys acoes causas) k) = Inr v'"
    "row' k = Some v'"
proof -
  let ?img = "if dict_get P ''_imagem_upload'' = PNone then img else PStr np"
  obtain dbp vals where u:
    "montar_db_payload L today now P ?img tag True = Inr dbp"
    "sql_adapt_all dbp = Inr vals"
    "db_rows db' i = Some (row ++ map_of vals)"
    by (rule atualizar_row [OF assms(1,2)])
  obtain tempo per whys acoes causas where
    d: "dbp = map (\<lambda>k. (k, alist_get (db_payload_lit L today now P ?img tag True
                    tempo per whys acoes causas) k)) DB_COLUMNS"
    by (rule montar_cases [OF u(1)])
  let ?lit = "db_payload_lit L today now P ?img tag True tempo per whys acoes causas"
  have "map_of dbp k = Some (alist_get ?lit k)"
    unfolding d by (rule map_of_tabulate [OF assms(3)])
  then obtain v' where v: "sql_adapt (alist_get ?lit k) = Inr v'" "map_of vals k = Some v'"
    using sql_adapt_all_lookup [OF u(2)] by blast
  have f: "(row ++ map_of vals) k = Some v'"
    using v(2) by simp
  show thesis
    by (rule that [OF u(3) v(1) f])
qed

text \<open>
  C9. An update that completes on a stored row leaves \<^verbatim>\<open>NULL\<close> in each legacy column of that
  row (\<open>legacy_cols\<close>), whatever the row held there and whatever the payload holds.
\<close>

theorem update_nulls_legacy:
  assumes "atualizar_bda L today now np db i P tag img = Inr db'" and "db_rows db i = Some row"
  shows "\<exists>row'. db_rows db' i = Some row' \<and> list_all (\<lambda>k. dict_get row' k = PNone) legacy_cols"
proof -
  obtain dbp vals where u: "db_rows db' i = Some (row ++ map_of vals)"
    by (rule atualizar_row [OF assms])
  have "dict_get (row ++ map_of vals) k = PNone" if k: "k \<in> set legacy_cols" for k
  proof -
    obtain row' tempo per whys acoes causas v' where c:
      "db_rows db' i = Some row'"
      "sql_adapt (alist_get (db_payload_lit L today now P
        (if dict_get P ''_imagem_upload'' = PNone then img else PStr np) tag True
        tempo per whys acoes causas) k) = Inr v'"
      "row' k = Some v'"
      by (rule atualizar_column [OF assms legacy_in_cols [OF k]])
    have "alist_get (db_payload_lit L today now P
        (if dict_get P ''_imagem_upload'' = PNone then img else PStr np) tag True
        tempo per whys acoes causas) k = PNone"
      using lit_legacy k unfolding list_all_iff by blast
    then have "v' = PNone" using c(2) by simp
    then show ?thesis using c(1,3) u by (simp add: dict_get_def)
  qed
  then show ?thesis using u by (simp add: list_all_iff)
qed

lemma update_audit:
  assumes "atualizar_bda L today now np db i P tag img = Inr db'" and "db_rows db i = Some row"
  shows "\<exists>row'. db_rows db' i = Some row' \<and> dict_get row' ''criado_por'' = PNone
     \<and> dict_get row' ''atualizado_por'' = PStr tag
     \<and> dict_get row' ''atualizado_em'' = PStr (now_ts today now)"
proof -
  obtain r1 t1 p1 w1 a1 c1 v1 where c: "db_rows db' i = Some r1"
      "sql_adapt (alist_get (db_payload_lit L today now P
        (if dict_get P ''_imagem_upload'' = PNone then img else PStr np) tag True
        t1 p1 w1 a1 c1) ''criado_por'') = Inr v1" "r1 ''criado_por'' = Some v1"
    by (rule atualizar_column [OF assms audit_in_cols(1)])
  obtain r2 t2 p2 w2 a2 c2 v2 where a: "db_rows db' i = Some r2"
      "sql_adapt (alist_get (db_payload_lit L today now P
        (if dict_get P ''_imagem_upload'' = PNone then img else PStr np) tag True
        t2 p2 w2 a2 c2) ''atualizado_por'') = Inr v2" "r2 ''atualizado_por'' = Some v2"
    by (rule atualizar_column [OF assms audit_in_cols(2)])
  obtain r3 t3 p3 w3 a3 c3 v3 where e: "db_rows db' i = Some r3"
      "sql_adapt (alist_get (db_payload_lit L today now P
        (if dict_get P ''_imagem_upload'' = PNone then img else PStr np) tag True
        t3 p3 w3 a3 c3) ''atualizado_em'') = Inr v3" "r3 ''atualizado_em'' = Some v3"
    by (rule atualizar_column [OF assms audit_in_cols(3)])
  have "v1 = PNone" "v2 = PStr tag" "v3 = PStr (now_ts today now)"
    using c(2) a(2) e(2) unfolding lit_audit by simp_all
  then show ?thesis
    using c(1,3) a(1,3) e(1,3) by (simp add: dict_get_def)
qed

lemma montar_ok:
  assumes "py_float L (py_or (dict_get P ''tempo_reparo_h'') (PFloat (FFin 0))) = Inr tempo"
    "py_int (py_or (dict_get P ''periodicidade_dias'') (PInt 0)) = Inr per"
    "json_field L P ''_whys_grid'' ''cinco_porques_grid'' = Inr whys"
    "json_field L P ''_acoes_lista'' ''acoes_lista'' = Inr acoes"
    "json_field L P ''_causas_linhas'' ''causas_linhas'' = Inr causas"
  shows "montar_db_payload L today now P img tag upd =
     Inr (map (\<lambda>k. (k, alist_get (db_payload_lit L today now P img tag upd
                    tempo per whys acoes causas) k)) DB_COLUMNS)"
  by (simp only: montar_db_payload_def assms sum.case)

lemma sql_adapt_all_tab:
  "list_all (\<lambda>k. bindable (f k)) ks \<Longrightarrow>
   \<exists>vals. sql_adapt_all (map (\<lambda>k. (k, f k)) ks) = Inr vals \<and> map fst vals = ks"
proof (induction ks)
  case Nil
  then show ?case by simp
next
  case (Cons k ks)
  then obtain vals where v: "sql_adapt_all (map (\<lambda>k. (k, f k)) ks) = Inr vals" "map fst vals = ks"
    by auto
  from Cons.prems obtain v' where "sql_adapt (f k) = Inr v'"
    by (auto simp: bindable_def split: sum.splits)
  then show ?case using v by simp
qed

lemma sql_adapt_all_keys: "sql_adapt_all kvs = Inr vals \<Longrightarrow> map fst vals = map fst kvs"
proof (induction kvs arbitrary: vals)
  case Nil
  then show ?case by simp
next
  case (Cons p kvs)
  then show ?case by (cases p) (auto split: sum.splits)
qed

lemma atualizar_ok:
  assumes "montar_db_payload L today now P
       (if dict_get P ''_imagem_upload'' = PNone then img else PStr np) tag True =
       Inr (map (\<lambda>k. (k, f k)) DB_COLUMNS)"
    and "list_all (\<lambda>k. bindable (f k)) DB_COLUMNS"
    and "set DB_COLUMNS \<subseteq> set (db_cols db)"
  shows "\<exists>db'. atualizar_bda L today now np db i P tag img = Inr db' \<and> db_cols db' = db_cols db"
proof -
  obtain vals where v: "sql_adapt_all (map (\<lambda>k. (k, f k)) DB_COLUMNS) = Inr vals" "map fst vals = DB_COLUMNS"
    using sql_adapt_all_tab [OF assms(2)] by blast
  show ?thesis
    unfolding atualizar_bda_def Let_def assms(1) using v assms(3)
    by (auto split: option.splits)
qed

lemma inserir_ok:
  assumes "montar_db_payload L today now P
       (if dict_get P ''_imagem_upload'' \<noteq> PNone then PStr np else PNone) tag False =
       Inr (map (\<lambda>k. (k, f k)) DB_COLUMNS)"
    and "list_all (\<lambda>k. bindable (f k)) DB_COLUMNS"
    and "set DB_COLUMNS \<subseteq> set (db_cols db)"
  shows "\<exists>db' vals. inserir_bda L today now utc np db P tag = Inr db' \<and> db_cols db' = db_cols db
     \<and> sql_adapt_all (map (\<lambda>k. (k, f k)) DB_COLUMNS) = Inr vals
     \<and> db_rows db' (db_seq db + 1) =
         Some ((map_of vals)(''id'' \<mapsto> PInt (db_seq db + 1), ''created_at'' \<mapsto> PStr utc))"
proof -
  obtain vals where v: "sql_adapt_all (map (\<lambda>k. (k, f k)) DB_COLUMNS) = Inr vals" "map fst vals = DB_COLUMNS"
    using sql_adapt_all_tab [OF assms(2)] by blast
  show ?thesis
    unfolding inserir_bda_def Let_def assms(1) using v assms(3)
    by auto
qed

lemma ex_get:
  "dict_get ex_payload ''tempo_reparo_h'' = PFloat (FFin (5 / 4))"
  "dict_get ex_payload ''periodicidade_dias'' = PInt 30"
  "dict_get ex_payload ''_whys_grid'' = PList [ex_row4, ex_row0]"
  "dict_get ex_payload ''_acoes_lista'' = PList [ex_acao]"
  "dict_get ex_payload ''_causas_linhas'' = PList [ex_causa4, ex_causa0]"
  "dict_get ex_payload ''_imagem_upload'' = PNone"
  by (simp_all add: ex_payload_def dict_get_def)

lemma ex_float: "py_float ref_lib (py_or (dict_get ex_payload ''tempo_reparo_h'') (PFloat (FFin 0))) = Inr (FFin (5 / 4))"
  by (simp add: ex_get py_or_def)

lemma ex_int: "py_int (py_or (dict_get ex_payload ''periodicidade_dias'') (PInt 0)) = Inr 30"
  by (simp add: ex_get py_or_def)

lemma ex_whys: "\<exists>s. json_field ref_lib ex_payload ''_whys_grid'' ''cinco_porques_grid'' = Inr (PStr s)"
  by (simp add: json_field_def ex_get py_or_def ref_lib_def ex_row4_def ex_row0_def)

lemma ex_acoes: "\<exists>s. json_field ref_lib ex_payload ''_acoes_lista'' ''acoes_lista'' = Inr (PStr s)"
  by (simp add: json_field_def ex_get py_or_def ref_lib_def ex_acao_def)

lemma ex_causas: "\<exists>s. json_field ref_lib ex_payload ''_causas_linhas'' ''causas_linhas'' = Inr (PStr s)"
  by (simp add: json_field_def ex_get py_or_def ref_lib_def ex_causa4_def ex_causa0_def)

lemma lit_tab:
  "map (\<lambda>k. (k, alist_get (db_payload_lit L today now P img tag upd tempo per whys acoes causas) k))
     DB_COLUMNS = db_payload_lit L today now P img tag upd tempo per whys acoes causas"
  by (simp add: DB_COLUMNS_def db_payload_lit_def alist_get_Cons alist_get_Nil)

lemma bindable_tab:
  "list_all (\<lambda>p. bindable (snd p)) (map (\<lambda>k. (k, f k)) ks) \<Longrightarrow> list_all (\<lambda>k. bindable (f k)) ks"
  by (simp add: list_all_iff)

lemma ex_bindable:
  "list_all (\<lambda>p. bindable (snd p))
     (db_payload_lit ref_lib today now ex_payload PNone tag upd tempo 30 (PStr w) (PStr a) (PStr c))"
  by (simp add: db_payload_lit_def bindable_def str_if_truthy_def ex_payload_def dict_get_def)

lemma ex_cols: "set DB_COLUMNS \<subseteq> set (db_cols ex_db1)"
  by (simp add: ex_db1_def ex_db0_def ensure_schema_def create_table_def new_cols_def base_cols_def DB_COLUMNS_def)

lemma ex_update_ok:
  "\<exists>db'. atualizar_bda ref_lib today now np ex_db1 i ex_payload tag PNone = Inr db'"
proof -
  obtain w a c where j:
    "json_field ref_lib ex_payload ''_whys_grid'' ''cinco_porques_grid'' = Inr (PStr w)"
    "json_field ref_lib ex_payload ''_acoes_lista'' ''acoes_lista'' = Inr (PStr a)"
    "json_field ref_lib ex_payload ''_causas_linhas'' ''causas_linhas'' = Inr (PStr c)"
    using ex_whys ex_acoes ex_causas by blast
  have img: "(if dict_get ex_payload ''_imagem_upload'' = PNone then PNone else PStr np) = PNone"
    by (simp add: ex_get)
  have m: "montar_db_payload ref_lib today now ex_payload
       (if dict_get ex_payload ''_imagem_upload'' = PNone then PNone else PStr np) tag True =
     Inr (map (\<lambda>k. (k, alist_get (db_payload_lit ref_lib today now ex_payload PNone tag True
                    (FFin (5 / 4)) 30 (PStr w) (PStr a) (PStr c)) k)) DB_COLUMNS)"
    unfolding img by (rule montar_ok [OF ex_float ex_int j])
  have b: "list_all (\<lambda>k. bindable (alist_get (db_payload_lit ref_lib today now ex_payload PNone tag True
                    (FFin (5 / 4)) 30 (PStr w) (PStr a) (PStr c)) k)) DB_COLUMNS"
    by (rule bindable_tab) (simp only: lit_tab ex_bindable)
  show ?thesis
    using atualizar_ok [OF m b ex_cols] by blast
qed

lemma ex_row1:
  "db_rows ex_db1 1 = Some (map_of
      [(''id'', PInt 1), (''equipamento'', PStr ''Moinho 2''), (''centro_custo'', PStr ''CC-10''),
       (''causa_raiz'', PStr ''desgaste''), (''custo_pecas'', PFloat (FFin 120)),
       (''criado_por'', PStr ''ana@jde.com (TECNICO)'')])"
  by (simp add: ex_db1_def)

text \<open>
  C1. The stored row 1 of \<open>ex_db1\<close> has a creator; an update of it by another user leaves the
  creator column \<^verbatim>\<open>NULL\<close> and the updater column with the tag of that user. The claim that an
  update never changes the creator fails here.
\<close>

theorem update_erases_creator:
  "map_option (\<lambda>r. dict_get r ''criado_por'') (db_rows ex_db1 1) = Some (PStr ''ana@jde.com (TECNICO)'')
   \<and> (case atualizar_bda ref_lib (Date 738887) (Time 9 15 0 0) ''uploads/bda_2.png'' ex_db1 1
              ex_payload ''rui@jde.com (CONFIABILIDADE)'' PNone of
         Inl e \<Rightarrow> None
       | Inr db2 \<Rightarrow> map_option (\<lambda>r. (dict_get r ''criado_por'', dict_get r ''atualizado_por''))
                     (db_rows db2 1))
     = Some (PNone, PStr ''rui@jde.com (CONFIABILIDADE)'')"
proof -
  obtain db2 where u: "atualizar_bda ref_lib (Date 738887) (Time 9 15 0 0) ''uploads/bda_2.png'' ex_db1 1
              ex_payload ''rui@jde.com (CONFIABILIDADE)'' PNone = Inr db2"
    using ex_update_ok by blast
  obtain row' where r: "db_rows db2 1 = Some row'" "dict_get row' ''criado_por'' = PNone"
     "dict_get row' ''atualizado_por'' = PStr ''rui@jde.com (CONFIABILIDADE)''"
    using update_audit [OF u ex_row1] by blast
  have "map_option (\<lambda>r. dict_get r ''criado_por'') (db_rows ex_db1 1) = Some (PStr ''ana@jde.com (TECNICO)'')"
    by (simp add: ex_row1 dict_get_def)
  then show ?thesis
    using u r by simp
qed

theorem update_nulls_legacy_witness:
  "\<exists>db' row. atualizar_bda ref_lib (Date 738887) (Time 9 15 0 0) ''uploads/bda_2.png'' ex_db1 1
              ex_payload ''rui@jde.com (CONFIABILIDADE)'' PNone = Inr db'
     \<and> db_rows ex_db1 1 = Some row \<and> dict_get row ''centro_custo'' = PStr ''CC-10''
     \<and> (\<exists>row'. db_rows db' 1 = Some row' \<and> list_all (\<lambda>k. dict_get row' k = PNone) legacy_cols)"
proof -
  obtain db2 where u: "atualizar_bda ref_lib (Date 738887) (Time 9 15 0 0) ''uploads/bda_2.png'' ex_db1 1
              ex_payload ''rui@jde.com (CONFIABILIDADE)'' PNone = Inr db2"
    using ex_update_ok by blast
  have c: "dict_get (map_of
      [(''id'', PInt 1), (''equipamento'', PStr ''Moinho 2''), (''centro_custo'', PStr ''CC-10''),
       (''causa_raiz'', PStr ''desgaste''), (''custo_pecas'', PFloat (FFin 120)),
       (''criado_por'', PStr ''ana@jde.com (TECNICO)'')]) ''centro_custo'' = PStr ''CC-10''"
    by (simp add: dict_get_def)
  show ?thesis
    using update_nulls_legacy [OF u ex_row1] u ex_row1 c by blast
qed


end
